theory Spec2Isabelle
  imports Main "HOL-Library.Sublist"
begin

section \<open>Resume customizer: a shallow embedding of \<^verbatim>\<open>resume_customizer.py\<close>\<close>

text \<open>
  The program is a linear pipeline: resolve the credential, read two files, validate the
  resume, call a remote text-generation service, strip a markdown code fence from the
  answer, validate it, stage it in a temporary file and run an external renderer.

  Pure text functions (\<^verbatim>\<open>_clean_yaml_response\<close>, \<^verbatim>\<open>_create_prompt\<close>) are HOL
  functions on texts. Everything the program reads from outside itself (the process
  environment, files, the YAML parser, the remote service, the temporary-file facility,
  the renderer subprocess, the notification library) is a field of the record \<open>env\<close>,
  fixed for one run. What the program does to the outside is recorded in a \<open>state\<close>:
  the files it has written and the chronological trace of its observable actions.
  A raised exception is the \<open>Inl\<close> of a sum.
\<close>

subsection \<open>Texts\<close>

text \<open>
  A Python \<^verbatim>\<open>str\<close> is a sequence of Unicode code points; a code point is a natural
  number here. \<open>lit\<close> turns a literal of the theory into such a text.
\<close>

type_synonym str = "nat list"

definition lit :: "string \<Rightarrow> str" where
  "lit s = map of_char s"

text \<open>
  The characters \<^verbatim>\<open>str.strip()\<close> removes when called without an argument: the code
  points Python classifies as whitespace (tab to carriage return, the four information
  separators, space, next line, no-break space, and the Unicode space separators).
\<close>

definition is_space :: "nat \<Rightarrow> bool" where
  "is_space c =
     ((9 \<le> c \<and> c \<le> 13) \<or> (28 \<le> c \<and> c \<le> 32) \<or> c = 133 \<or> c = 160 \<or> c = 5760 \<or>
      (8192 \<le> c \<and> c \<le> 8202) \<or> c = 8232 \<or> c = 8233 \<or> c = 8239 \<or> c = 8287 \<or>
      c = 12288)"

definition strip :: "str \<Rightarrow> str" where
  "strip s = rev (dropWhile is_space (rev (dropWhile is_space s)))"

definition startswith :: "str \<Rightarrow> str \<Rightarrow> bool" where
  "startswith s p = (take (length p) s = p)"

definition endswith :: "str \<Rightarrow> str \<Rightarrow> bool" where
  "endswith s p = (length p \<le> length s \<and> drop (length s - length p) s = p)"

subsection \<open>The customizer object, exceptions, the outside world\<close>

record openai_client =
  base_url :: str
  client_key :: str

record customizer =
  api_key :: str
  client :: openai_client

text \<open>
  The \<^verbatim>\<open>OpenAI\<close> client object is its two constructor arguments; building it opens
  no connection. The only use of the network is \<^verbatim>\<open>chat.completions.create\<close>, the
  event \<open>Request\<close> below.
\<close>

definition OpenAI :: "str \<Rightarrow> str \<Rightarrow> openai_client" where
  "OpenAI url key = \<lparr>base_url = url, client_key = key\<rparr>"

definition ResumeCustomizer :: "str \<Rightarrow> customizer" where
  "ResumeCustomizer key =
     \<lparr>api_key = key, client = OpenAI (lit ''https://openrouter.ai/api/v1'') key\<rparr>"

text \<open>
  The two kinds of exception the command-line handler tells apart: a
  \<^verbatim>\<open>click.ClickException\<close> with its message, and any other \<^verbatim>\<open>Exception\<close>
  with its \<^verbatim>\<open>str()\<close>.
\<close>

datatype exn = ClickException str | OtherException str

text \<open>The request of \<^verbatim>\<open>chat.completions.create\<close> (the sampling temperature, a
  constant, is left out).\<close>

record chat_request =
  extra_headers :: "(str \<times> str) list"
  model :: str
  messages :: "(str \<times> str) list"

text \<open>\<^verbatim>\<open>yaml.safe_load\<close>: the text parses, or the parser raises a
  \<^verbatim>\<open>yaml.YAMLError\<close>, or it raises something else.\<close>

datatype load_result = Loaded | YAMLError str | LoadRaised str

text \<open>\<^verbatim>\<open>subprocess.run(cmd, capture_output=True, text=True, check=True)\<close>: the process
  ran and exited with a return code, its two streams captured; or the executable was
  not found; or starting it raised something else.\<close>

datatype run_result = Completed int str str | FileNotFoundError | RunRaised str

record env =
  getenv :: "str \<Rightarrow> str option"
  open_read :: "str \<Rightarrow> str + str"
  safe_load :: "str \<Rightarrow> load_result"
  completions_create :: "openai_client \<Rightarrow> chat_request \<Rightarrow> str + str"
  temporary_file :: "str \<Rightarrow> str \<Rightarrow> str + str"
  run :: "str list \<Rightarrow> run_result"
  notification :: "(str \<Rightarrow> str \<Rightarrow> str option) option"
  usage_error :: "str \<Rightarrow> str \<Rightarrow> str option"

text \<open>
  \<^item> \<open>getenv e name\<close>: \<^verbatim>\<open>os.getenv(name)\<close>, \<open>None\<close> when the variable is unset.
  \<^item> \<open>open_read e path\<close>: opening and reading a file as UTF-8: \<open>Inr\<close> its content,
    or \<open>Inl\<close> the text of the exception raised.
  \<^item> \<open>completions_create e client request\<close>: the remote call and the reading of
    \<^verbatim>\<open>completion.choices[0].message.content\<close>: \<open>Inr\<close> that content, or \<open>Inl\<close> the
    text of whatever exception is raised on the way.
  \<^item> \<open>temporary_file e suffix content\<close>: creating a named temporary file and writing
    \<open>content\<close> to it: \<open>Inr\<close> the new file's name, or \<open>Inl\<close> the text of the
    exception raised (a failed staging leaves no file in the model).
  \<^item> \<open>notification e\<close>: \<open>None\<close> when \<^verbatim>\<open>plyer\<close> could not be imported; otherwise
    the behaviour of \<^verbatim>\<open>notification.notify\<close> on a title and a message: \<open>None\<close>
    when it returns, \<open>Some\<close> the exception's text when it raises.
  \<^item> \<open>usage_error e param path\<close>, consulted for a path that cannot be opened and read:
    what \<^verbatim>\<open>click.Path(exists=True)\<close> makes of it as the value of the parameter
    \<open>param\<close>: \<open>Some\<close> the usage message \<^verbatim>\<open>click\<close> prints when the path does
    not exist or is not readable, \<open>None\<close> when the path passes all the same (a
    directory, a file that is not UTF-8).
\<close>

datatype event =
  Stdout str
  | Stderr str
  | ReadFile str
  | Request openai_client chat_request
  | FileWrite str str
  | Subprocess "str list"
  | Notify str str

record state =
  files :: "str \<rightharpoonup> str"
  trace :: "event list"

definition emit :: "event list \<Rightarrow> state \<Rightarrow> state" where
  "emit evs st = st\<lparr>trace := trace st @ evs\<rparr>"

text \<open>\<^verbatim>\<open>click.echo(msg)\<close> and \<^verbatim>\<open>click.echo(msg, err=True)\<close>.\<close>

definition echo :: "str \<Rightarrow> state \<Rightarrow> state" where
  "echo msg st = emit [Stdout msg] st"

definition echo_err :: "str \<Rightarrow> state \<Rightarrow> state" where
  "echo_err msg st = emit [Stderr msg] st"

subsection \<open>The methods of \<^verbatim>\<open>ResumeCustomizer\<close>\<close>

definition read_file :: "customizer \<Rightarrow> str \<Rightarrow> env \<Rightarrow> state \<Rightarrow> (exn + str) \<times> state" where
  "read_file self file_path e st =
     (case open_read e file_path of
        Inr content \<Rightarrow> (Inr content, emit [ReadFile file_path] st)
      | Inl err \<Rightarrow>
          (Inl (ClickException (lit ''Error reading '' @ file_path @ lit '': '' @ err)),
           emit [ReadFile file_path] st))"

definition clean_yaml_response :: "customizer \<Rightarrow> str \<Rightarrow> str" where
  "clean_yaml_response self response_content =
    (let cleaned = strip response_content;
         cleaned = (if startswith cleaned (lit ''```yaml'') then strip (drop 7 cleaned)
                    else if startswith cleaned (lit ''```yml'') then strip (drop 7 cleaned)
                    else if startswith cleaned (lit ''```'') then strip (drop 3 cleaned)
                    else cleaned);
         cleaned = (if endswith cleaned (lit ''```'') then strip (take (length cleaned - 3) cleaned)
                    else cleaned)
     in cleaned)"

text \<open>The three literal pieces of the f-string of \<^verbatim>\<open>_create_prompt\<close>, around its two
  placeholders.\<close>

definition prompt_before_job :: str where
  "prompt_before_job = lit
    (''\<newline>'' @
     ''JOB POSTING:\<newline>'')"

definition prompt_before_resume :: str where
  "prompt_before_resume = lit
    (''\<newline>'' @
     ''\<newline>'' @
     ''CURRENT RESUME (YAML format):\<newline>'')"

definition prompt_instructions :: str where
  "prompt_instructions = lit
    (''\<newline>'' @
     ''\<newline>'' @
     ''INSTRUCTIONS:\<newline>'' @
     ''Please modify the resume to better match this job posting. You must:\<newline>'' @
     ''\<newline>'' @
     ''1. EXPERIENCE SECTION HIGHLIGHTS:\<newline>'' @
     ''   - Reorder the highlights (bullet points) within each job in the Experience section\<newline>'' @
     ''   - Put the most relevant highlights first based on the job posting requirements\<newline>'' @
     ''   - Keep all highlights but reorder them by relevance to the job posting\<newline>'' @
     ''   - Do not add, remove, or modify the content of highlights - only reorder them\<newline>'' @
     ''\<newline>'' @
     ''2. TECHNOLOGIES SECTION:\<newline>'' @
     ''   - Remove technologies that are not relevant at all to the job posting\<newline>'' @
     ''   - Keep technologies that are mentioned or very closely related to those in the job posting\<newline>'' @
     ''   - Reorder the technologies to put the most relevant ones first, and reorder each technology category if needed.\<newline>'' @
     ''   - Add important technologies from the job posting that are missing but would be relevant. \<newline>'' @
     ''   - Only add important technologies that are equivalents or very closely related to those already listed in the resume.\<newline>'' @
     ''   - Only modify the \"details\" field within each technology category\<newline>'' @
     ''   - Maintain the same technology categories/labels\<newline>'' @
     ''\<newline>'' @
     ''3. IMPORTANT RESTRICTIONS:\<newline>'' @
     ''   - ONLY modify the highlights in the Experience section and details in the Technologies section\<newline>'' @
     ''   - Keep all other sections, formatting, and content exactly the same\<newline>'' @
     ''   - Return the complete modified YAML with proper formatting\<newline>'' @
     ''   - Do not change section names, structure, or any other content\<newline>'' @
     ''\<newline>'' @
     ''CRITICAL: Return ONLY the raw YAML content. Do not wrap it in code blocks, markdown, or any other formatting. Return the YAML exactly as it should be parsed. Be direct and focused in your modifications.\<newline>'')"

definition create_prompt :: "customizer \<Rightarrow> str \<Rightarrow> str \<Rightarrow> str" where
  "create_prompt self resume_content job_posting =
     prompt_before_job @ job_posting @ prompt_before_resume @ resume_content @
     prompt_instructions"

definition system_message :: str where
  "system_message = lit
    (''You are an expert resume writer and ATS optimization specialist. You will receive a resume in YAML format and a job posting. Your task is to modify ONLY the highlights in the Experience section and the Technologies section to better match the job posting while keeping all other content exactly the same.\<newline>'' @
     ''\<newline>'')"

text \<open>The request \<^verbatim>\<open>_make_api_call\<close> sends: two extra headers, the model's name and
  one message of the role \<^verbatim>\<open>user\<close>.\<close>

definition completion_request :: "str \<Rightarrow> chat_request" where
  "completion_request full_prompt =
     \<lparr>extra_headers =
        [(lit ''HTTP-Referer'', lit ''https://github.com/    -repo/resume-customizer''),
         (lit ''X-Title'', lit ''Resume Customizer CLI'')],
      model = lit ''openai/gpt-5-mini'',
      messages = [(lit ''user'', full_prompt)]\<rparr>"

definition make_api_call :: "customizer \<Rightarrow> str \<Rightarrow> env \<Rightarrow> state \<Rightarrow> (exn + str) \<times> state" where
  "make_api_call self prompt e st =
     (let full_prompt = system_message @ prompt;
          request = completion_request full_prompt;
          st1 = emit [Request (client self) request] st
      in case completions_create e (client self) request of
           Inr content \<Rightarrow> (Inr (strip content), st1)
         | Inl err \<Rightarrow> (Inl (ClickException (lit ''API request failed: '' @ err)), st1))"

definition call_openrouter :: "customizer \<Rightarrow> str \<Rightarrow> str \<Rightarrow> env \<Rightarrow> state \<Rightarrow> (exn + str) \<times> state" where
  "call_openrouter self resume_content job_posting e st =
     (let prompt = create_prompt self resume_content job_posting
      in case make_api_call self prompt e st of
           (Inl ex, st1) \<Rightarrow> (Inl ex, st1)
         | (Inr response_content, st1) \<Rightarrow>
             (Inr (clean_yaml_response self response_content), st1))"

text \<open>Leaving the \<^verbatim>\<open>with\<close> block closes the temporary file; a
  \<^verbatim>\<open>NamedTemporaryFile\<close> is removed on closing exactly when it was made with
  \<^verbatim>\<open>delete=True\<close>.\<close>

definition close_temporary_file :: "bool \<Rightarrow> str \<Rightarrow> state \<Rightarrow> state" where
  "close_temporary_file delete name st =
     (if delete then st\<lparr>files := (files st)(name := None)\<rparr> else st)"

definition save_temp_resume :: "customizer \<Rightarrow> str \<Rightarrow> env \<Rightarrow> state \<Rightarrow> (exn + str) \<times> state" where
  "save_temp_resume self modified_yaml e st =
     (case temporary_file e (lit ''.yml'') modified_yaml of
        Inl err \<Rightarrow> (Inl (OtherException err), st)
      | Inr name \<Rightarrow>
          (let st1 = emit [FileWrite name modified_yaml]
                       (st\<lparr>files := (files st)(name \<mapsto> modified_yaml)\<rparr>)
           in (Inr name, close_temporary_file False name st1)))"

text \<open>In the messages below the code point 39 is the apostrophe around the artifact's
  name. The two final \<open>echo\<close>s are the \<^verbatim>\<open>finally\<close> block: they run whatever
  the outcome.\<close>

definition render_resume :: "customizer \<Rightarrow> str \<Rightarrow> str \<Rightarrow> env \<Rightarrow> state \<Rightarrow> (exn + unit) \<times> state" where
  "render_resume self temp_file output_name e st =
     (let cmd = [lit ''rendercv'', lit ''render'', temp_file];
          st1 = emit [Subprocess cmd] st;
          (r, st2) =
            (case run e cmd of
               Completed returncode out err \<Rightarrow>
                 if returncode \<noteq> 0
                 then (Inl (ClickException (lit ''Failed to render resume: '' @ err)), st1)
                 else (Inr (),
                       echo_err err (echo_err (lit ''RenderCV output:'')
                         (echo (lit ''Resume rendered successfully as '' @ [39] @ output_name @
                                lit ''.pdf'' @ [39]) st1)))
             | FileNotFoundError \<Rightarrow>
                 (Inl (ClickException
                    (lit ''rendercv command not found. Please ensure renderCV is installed.'')),
                  st1)
             | RunRaised err \<Rightarrow> (Inl (OtherException err), st1))
      in (r, echo (lit ''You can inspect the modified resume YAML file before deleting it.'')
               (echo (lit ''Temporary YAML file saved as: '' @ temp_file) st2)))"

definition missing_key_message :: str where
  "missing_key_message = lit
    (''OpenRouter API key not found. Please set OPENROUTER_API_KEY in your .env file.\<newline>'' @
     ''Example .env file:\<newline>'' @
     ''OPENROUTER_API_KEY=sk-or-v1-your-key-here'')"

text \<open>
  \<^verbatim>\<open>customize_resume\<close> stores the key and a fresh client in \<open>self\<close> before it does
  anything else; its caller never reads the object again, so the updated object is used
  for the rest of the method and not returned.
\<close>

definition customize_resume ::
  "customizer \<Rightarrow> str \<Rightarrow> str \<Rightarrow> str \<Rightarrow> env \<Rightarrow> state \<Rightarrow> (exn + unit) \<times> state" where
  "customize_resume self resume_file job_posting_file output_name e st =
     (case getenv e (lit ''OPENROUTER_API_KEY'') of
        None \<Rightarrow> (Inl (ClickException missing_key_message), st)
      | Some key \<Rightarrow>
          if key = [] then (Inl (ClickException missing_key_message), st)
          else
            (let self = self\<lparr>api_key := key,
                             client := OpenAI (lit ''https://openrouter.ai/api/v1'') key\<rparr>
             in case read_file self resume_file e st of
                  (Inl ex, st1) \<Rightarrow> (Inl ex, st1)
                | (Inr resume_content, st1) \<Rightarrow>
             (case read_file self job_posting_file e st1 of
                  (Inl ex, st2) \<Rightarrow> (Inl ex, st2)
                | (Inr job_posting, st2) \<Rightarrow>
             (case safe_load e resume_content of
                  YAMLError err \<Rightarrow>
                    (Inl (ClickException (lit ''Invalid YAML format in resume file: '' @ err)), st2)
                | LoadRaised err \<Rightarrow> (Inl (OtherException err), st2)
                | Loaded \<Rightarrow>
             (case call_openrouter self resume_content job_posting e
                     (echo (lit ''Customizing resume with AI...'') st2) of
                  (Inl ex, st3) \<Rightarrow> (Inl ex, st3)
                | (Inr modified_yaml, st3) \<Rightarrow>
             (case safe_load e modified_yaml of
                  YAMLError err \<Rightarrow>
                    (Inl (ClickException (lit ''AI returned invalid YAML: '' @ err)), st3)
                | LoadRaised err \<Rightarrow> (Inl (OtherException err), st3)
                | Loaded \<Rightarrow>
             (case save_temp_resume self modified_yaml e st3 of
                  (Inl ex, st4) \<Rightarrow> (Inl ex, st4)
                | (Inr temp_file, st4) \<Rightarrow>
                    render_resume self temp_file output_name e st4)))))))"

subsection \<open>The command \<^verbatim>\<open>customize\<close>\<close>

text \<open>The two pictographs of the messages: U+2705 and U+274C.\<close>

definition check_mark :: str where
  "check_mark = [9989]"

definition cross_mark :: str where
  "cross_mark = [10060]"

text \<open>The body of the \<^verbatim>\<open>try\<close> block.\<close>

definition customize_try ::
  "str \<Rightarrow> str \<Rightarrow> str \<Rightarrow> bool \<Rightarrow> env \<Rightarrow> state \<Rightarrow> (exn + unit) \<times> state" where
  "customize_try resume_file job_posting_file output verbose e st =
     (let customizer = ResumeCustomizer [];
          st1 = (if verbose
                 then echo (lit ''Output: '' @ output)
                        (echo (lit ''Job posting: '' @ job_posting_file)
                          (echo (lit ''Processing resume: '' @ resume_file) st))
                 else st)
      in case customize_resume customizer resume_file job_posting_file output e st1 of
           (Inl ex, st2) \<Rightarrow> (Inl ex, st2)
         | (Inr u, st2) \<Rightarrow>
             (let st3 = echo (check_mark @ lit '' Resume customization completed successfully!'') st2
              in case notification e of
                   None \<Rightarrow> (Inr (), st3)
                 | Some notify \<Rightarrow>
                     (let title = lit ''Resume Customization Complete'';
                          message = lit ''Resume has been successfully customized and saved as '' @
                                    [39] @ output @ lit ''.pdf'' @ [39];
                          st4 = emit [Notify title message] st3
                      in case notify title message of
                           None \<Rightarrow> (Inr (), st4)
                         | Some err \<Rightarrow> (Inr (), st4))))"

text \<open>The function \<^verbatim>\<open>customize\<close> as written: the \<^verbatim>\<open>try\<close> block and its two
  handlers. The first component is the exit code: \<^verbatim>\<open>sys.exit(1)\<close> in a handler,
  0 when the function returns.\<close>

definition customize_body :: "str \<Rightarrow> str \<Rightarrow> str \<Rightarrow> bool \<Rightarrow> env \<Rightarrow> state \<Rightarrow> int \<times> state" where
  "customize_body resume_file job_posting_file output verbose e st =
     (case customize_try resume_file job_posting_file output verbose e st of
        (Inr u, st1) \<Rightarrow> (0, st1)
      | (Inl (ClickException msg), st1) \<Rightarrow>
          (1, echo_err (cross_mark @ lit '' Error: '' @ msg) st1)
      | (Inl (OtherException msg), st1) \<Rightarrow>
          (1, echo_err (cross_mark @ lit '' Unexpected error: '' @ msg) st1))"

text \<open>
  The decorators of the function make it a \<^verbatim>\<open>click\<close> command with two path
  arguments declared \<^verbatim>\<open>click.Path(exists=True)\<close>. \<^verbatim>\<open>click\<close> converts the
  arguments in the order of their declaration before it calls the function: a path that
  does not exist (or is not readable) ends the process with exit code 2 and a usage
  message on the diagnostic stream, and the function is not called. A file that can be
  opened and read exists and is readable, so it passes; for any other path the outside
  world tells. (The model starts from arguments that \<^verbatim>\<open>click\<close> has parsed: a
  command line with a missing argument or an unknown option is outside it.)
\<close>

definition check_path :: "env \<Rightarrow> str \<Rightarrow> str \<Rightarrow> str option" where
  "check_path e param path =
     (case open_read e path of
        Inr content \<Rightarrow> None
      | Inl err \<Rightarrow> usage_error e param path)"

text \<open>The whole command. The first component is the exit code of the process.\<close>

definition customize :: "str \<Rightarrow> str \<Rightarrow> str \<Rightarrow> bool \<Rightarrow> env \<Rightarrow> state \<Rightarrow> int \<times> state" where
  "customize resume_file job_posting_file output verbose e st =
     (case check_path e (lit ''RESUME_FILE'') resume_file of
        Some usage \<Rightarrow> (2, echo_err usage st)
      | None \<Rightarrow>
     (case check_path e (lit ''JOB_POSTING_FILE'') job_posting_file of
        Some usage \<Rightarrow> (2, echo_err usage st)
      | None \<Rightarrow> customize_body resume_file job_posting_file output verbose e st))"

subsection \<open>Notions used by the statements and the proofs\<close>

text \<open>A text is stripped when neither end is whitespace.\<close>

definition stripped :: "str \<Rightarrow> bool" where
  "stripped s = (s = [] \<or> (\<not> is_space (hd s) \<and> \<not> is_space (last s)))"

text \<open>The two conditional steps of \<^verbatim>\<open>_clean_yaml_response\<close>, named so that lemmas
  can speak of each; \<open>clean_phases\<close> below shows that the method is their composition.\<close>

definition remove_opening :: "str \<Rightarrow> str" where
  "remove_opening cleaned =
     (if startswith cleaned (lit ''```yaml'') then strip (drop 7 cleaned)
      else if startswith cleaned (lit ''```yml'') then strip (drop 7 cleaned)
      else if startswith cleaned (lit ''```'') then strip (drop 3 cleaned)
      else cleaned)"

definition remove_closing :: "str \<Rightarrow> str" where
  "remove_closing cleaned =
     (if endswith cleaned (lit ''```'') then strip (take (length cleaned - 3) cleaned)
      else cleaned)"

text \<open>The events a run has added to the trace; the projections of a trace on the
  diagnostic stream, the remote calls, the staged files and the subprocesses.\<close>

definition since :: "state \<Rightarrow> state \<Rightarrow> event list" where
  "since st st' = drop (length (trace st)) (trace st')"

definition stdout_lines :: "event list \<Rightarrow> str list" where
  "stdout_lines evs = [msg. Stdout msg \<leftarrow> evs]"

definition stderr_lines :: "event list \<Rightarrow> str list" where
  "stderr_lines evs = [msg. Stderr msg \<leftarrow> evs]"

definition requests :: "event list \<Rightarrow> (openai_client \<times> chat_request) list" where
  "requests evs = [(c, r). Request c r \<leftarrow> evs]"

definition file_writes :: "event list \<Rightarrow> (str \<times> str) list" where
  "file_writes evs = [(name, content). FileWrite name content \<leftarrow> evs]"

definition subprocesses :: "event list \<Rightarrow> str list list" where
  "subprocesses evs = [cmd. Subprocess cmd \<leftarrow> evs]"

abbreviation rendercv_cmd :: "str \<Rightarrow> str list" where
  "rendercv_cmd temp_file \<equiv> [lit ''rendercv'', lit ''render'', temp_file]"

text \<open>
  The steps of the pipeline as the specification lists them (4.5, steps 1 to 7), each
  read off the outside world: the credential is set and not empty, both files are
  readable, the resume validates, the remote call returns a text, the de-fenced text
  validates, staging succeeds, and the renderer exits with code 0.
\<close>

definition steps_succeed :: "env \<Rightarrow> str \<Rightarrow> str \<Rightarrow> bool" where
  "steps_succeed e resume_file job_posting_file =
     (case getenv e (lit ''OPENROUTER_API_KEY'') of
        None \<Rightarrow> False
      | Some key \<Rightarrow> key \<noteq> [] \<and>
     (case open_read e resume_file of
        Inl err \<Rightarrow> False
      | Inr resume_content \<Rightarrow>
     (case open_read e job_posting_file of
        Inl err \<Rightarrow> False
      | Inr job_posting \<Rightarrow> safe_load e resume_content = Loaded \<and>
     (case completions_create e (client (ResumeCustomizer key))
             (completion_request
                (system_message @
                 create_prompt (ResumeCustomizer key) resume_content job_posting)) of
        Inl err \<Rightarrow> False
      | Inr content \<Rightarrow>
          safe_load e (clean_yaml_response (ResumeCustomizer key) (strip content)) = Loaded \<and>
     (case temporary_file e (lit ''.yml'')
             (clean_yaml_response (ResumeCustomizer key) (strip content)) of
        Inl err \<Rightarrow> False
      | Inr temp_file \<Rightarrow>
     (case run e (rendercv_cmd temp_file) of
        Completed returncode out err \<Rightarrow> returncode = 0
      | FileNotFoundError \<Rightarrow> False
      | RunRaised err \<Rightarrow> False))))))"

text \<open>
  A concrete outside world, after the scenario of the specification: the credential is set,
  the resume file holds \<^verbatim>\<open>name: Jane Doe\nsections: {}\<close>, the job posting
  \<^verbatim>\<open>Looking for a Python engineer\<close>, a third file holds the malformed
  \<^verbatim>\<open>sections: [\<close>, the service answers with the resume in a \<^verbatim>\<open>yaml\<close>
  fence, staging and rendering succeed, and no notification library is installed; every
  other path does not exist.
  Variants of it are made by updating single fields.
\<close>

definition sample_env :: env where
  "sample_env =
     \<lparr>getenv = (\<lambda>name. if name = lit ''OPENROUTER_API_KEY'' then Some (lit ''sk-or-v1-0000'') else None),
      open_read = (\<lambda>path.
         if path = lit ''resume.yaml'' then Inr (lit ''name: Jane Doe\<newline>sections: {}'')
         else if path = lit ''job.txt'' then Inr (lit ''Looking for a Python engineer'')
         else if path = lit ''broken.yaml'' then Inr (lit ''sections: ['')
         else Inl (lit ''[Errno 2] No such file or directory'')),
      safe_load = (\<lambda>content.
         if content = lit ''sections: ['' then YAMLError (lit ''while parsing a flow node'')
         else Loaded),
      completions_create = (\<lambda>c request. Inr (lit ''```yaml\<newline>name: Jane Doe\<newline>sections: {}\<newline>```'')),
      temporary_file = (\<lambda>suffix content. Inr (lit ''/tmp/tmpk3v9.yml'')),
      run = (\<lambda>cmd. Completed 0 [] (lit ''Your CV is rendered'')),
      notification = None,
      usage_error = (\<lambda>param path.
         Some (lit ''Error: Invalid value for '' @ [39] @ param @ [39] @ lit '': Path '' @
               [39] @ path @ [39] @ lit '' does not exist.''))\<rparr>"

definition st0 :: state where
  "st0 = \<lparr>files = Map.empty, trace = []\<rparr>"


definition failing_notifier_env :: env where
  "failing_notifier_env =
     sample_env\<lparr>notification :=
       Some (\<lambda>title message. Some (lit ''No usable implementation found!''))\<rparr>"

text \<open>
  Two events are related when they are equal or are the same message printed for two
  output names: the \<^verbatim>\<open>Output:\<close> line of the verbose mode, the success line of
  \<^verbatim>\<open>render_resume\<close>, or the desktop notification.
\<close>

definition differ_by_output_name :: "str \<Rightarrow> str \<Rightarrow> event \<Rightarrow> event \<Rightarrow> bool" where
  "differ_by_output_name out1 out2 a b =
     (a = b \<or>
      (a = Stdout (lit ''Output: '' @ out1) \<and> b = Stdout (lit ''Output: '' @ out2)) \<or>
      (a = Stdout (lit ''Resume rendered successfully as '' @ [39] @ out1 @ lit ''.pdf'' @ [39]) \<and>
       b = Stdout (lit ''Resume rendered successfully as '' @ [39] @ out2 @ lit ''.pdf'' @ [39])) \<or>
      (a = Notify (lit ''Resume Customization Complete'')
             (lit ''Resume has been successfully customized and saved as '' @
              [39] @ out1 @ lit ''.pdf'' @ [39]) \<and>
       b = Notify (lit ''Resume Customization Complete'')
             (lit ''Resume has been successfully customized and saved as '' @
              [39] @ out2 @ lit ''.pdf'' @ [39])))"

section \<open>Stripping whitespace\<close>

lemma strip_decomp:
  "\<exists>w1 w2. list_all is_space w1 \<and> list_all is_space w2 \<and> s = w1 @ strip s @ w2"
proof -
  let ?u = "dropWhile is_space s"
  have 1: "s = takeWhile is_space s @ ?u" by simp
  have "?u = rev (takeWhile is_space (rev ?u) @ dropWhile is_space (rev ?u))"
    by simp
  also have "\<dots> = rev (dropWhile is_space (rev ?u)) @ rev (takeWhile is_space (rev ?u))"
    by (rule rev_append)
  finally have 2: "?u = strip s @ rev (takeWhile is_space (rev ?u))"
    by (simp only: strip_def)
  have 3: "list_all is_space (takeWhile is_space s)"
    by (simp add: list_all_iff) (meson set_takeWhileD)
  have 4: "list_all is_space (rev (takeWhile is_space (rev ?u)))"
    by (simp add: list_all_iff) (meson set_takeWhileD)
  from 1 2 have "s = takeWhile is_space s @ strip s @ rev (takeWhile is_space (rev ?u))"
    by metis
  with 3 4 show ?thesis by blast
qed

lemma stripped_strip: "stripped (strip s)"
proof (cases "strip s = []")
  case True
  then show ?thesis by (simp add: stripped_def)
next
  case False
  let ?u = "dropWhile is_space s"
  have r: "rev (strip s) = dropWhile is_space (rev ?u)" by (simp add: strip_def)
  with False have "\<not> is_space (hd (rev (strip s)))"
    by (metis hd_dropWhile rev_is_Nil_conv)
  with False have l: "\<not> is_space (last (strip s))" by (simp add: hd_rev)
  have "prefix (strip s) ?u"
    unfolding strip_def
    by (metis append_take_drop_id dropWhile_eq_drop prefixI rev_append rev_rev_ident)
  then obtain z where z: "?u = strip s @ z" by (auto simp: prefix_def)
  with False have "hd ?u = hd (strip s)" by (metis hd_append2)
  moreover have "?u \<noteq> []" using z False by auto
  ultimately have "\<not> is_space (hd (strip s))" by (metis hd_dropWhile)
  with l show ?thesis by (simp add: stripped_def)
qed

lemma strip_stripped: "stripped s \<Longrightarrow> strip s = s"
proof (cases "s = []")
  case True
  then show ?thesis by (simp add: strip_def)
next
  case False
  assume "stripped s"
  with False have h: "\<not> is_space (hd s)" and l: "\<not> is_space (last s)"
    by (auto simp: stripped_def)
  from False h have 1: "dropWhile is_space s = s" by (cases s) auto
  from False l have "\<not> is_space (hd (rev s))" by (simp add: hd_rev)
  with False have 2: "dropWhile is_space (rev s) = rev s" by (cases "rev s") auto
  show ?thesis by (simp add: strip_def 1 2)
qed

lemma strip_idem: "strip (strip s) = strip s"
  by (rule strip_stripped [OF stripped_strip])

lemma strip_length: "length (strip s) \<le> length s"
  unfolding strip_def
  by (metis length_dropWhile_le length_rev order_trans)

lemma stripped_no_trailing:
  "stripped s \<Longrightarrow> s = a @ w \<Longrightarrow> list_all is_space w \<Longrightarrow> w = []"
  by (cases w rule: rev_cases) (auto simp: stripped_def)

lemma stripped_no_leading:
  "stripped s \<Longrightarrow> s = w @ a \<Longrightarrow> list_all is_space w \<Longrightarrow> w = []"
  by (cases w) (auto simp: stripped_def)

lemma startswith_append: "startswith s p \<longleftrightarrow> (\<exists>r. s = p @ r)"
  unfolding startswith_def
  by (metis append_eq_conv_conj append_take_drop_id)

lemma startswith_drop: "startswith s p \<Longrightarrow> s = p @ drop (length p) s"
  unfolding startswith_def by (metis append_take_drop_id)

lemma startswith_length: "startswith s p \<Longrightarrow> length p \<le> length s"
  unfolding startswith_def by (metis length_take min.cobounded2 min.commute)

lemma endswith_take: "endswith s p \<Longrightarrow> s = take (length s - length p) s @ p"
  unfolding endswith_def by (metis append_take_drop_id)

section \<open>De-fencing\<close>

lemma clean_phases:
  "clean_yaml_response self x = remove_closing (remove_opening (strip x))"
  by (simp add: clean_yaml_response_def remove_opening_def remove_closing_def Let_def)

lemma len_fence [simp]: "length (lit ''```'') = 3"
  by (simp add: lit_def)

lemma len_yaml [simp]: "length (lit ''```yaml'') = 7"
  by (simp add: lit_def)

lemma len_yml [simp]: "length (lit ''```yml'') = 6"
  by (simp add: lit_def)

lemma startswith_yaml_fence: "startswith s (lit ''```yaml'') \<Longrightarrow> startswith s (lit ''```'')"
  by (auto simp: startswith_append lit_def)

lemma startswith_yml_fence: "startswith s (lit ''```yml'') \<Longrightarrow> startswith s (lit ''```'')"
  by (auto simp: startswith_append lit_def)

lemma clean_stripped: "stripped (clean_yaml_response self x)"
  by (simp add: clean_yaml_response_def Let_def stripped_strip)

lemma clean_strip: "clean_yaml_response self (strip x) = clean_yaml_response self x"
  by (simp add: clean_phases strip_idem)

lemma remove_opening_length: "length (remove_opening t) \<le> length t"
  unfolding remove_opening_def
  by (auto intro: order_trans [OF strip_length])

lemma remove_opening_shorter:
  assumes "startswith t (lit ''```'')"
  shows "length (remove_opening t) < length t"
proof -
  from assms have 3: "3 \<le> length t" using startswith_length by fastforce
  have a: "length (strip (drop 7 t)) \<le> length t - 7"
    using strip_length [of "drop 7 t"] by simp
  have b: "length (strip (drop 3 t)) \<le> length t - 3"
    using strip_length [of "drop 3 t"] by simp
  from 3 a b assms show ?thesis
    by (auto simp: remove_opening_def)
qed

lemma remove_closing_length: "length (remove_closing c) \<le> length c"
  unfolding remove_closing_def
  using strip_length [of "take (length c - 3) c"] by auto

lemma remove_closing_shorter:
  assumes "endswith c (lit ''```'')"
  shows "length (remove_closing c) < length c"
proof -
  from assms have 3: "3 \<le> length c" by (simp add: endswith_def)
  with assms strip_length [of "take (length c - 3) c"] show ?thesis
    by (auto simp: remove_closing_def)
qed

lemma remove_opening_id: "\<not> startswith t (lit ''```'') \<Longrightarrow> remove_opening t = t"
  using startswith_yaml_fence startswith_yml_fence by (auto simp: remove_opening_def)

lemma remove_closing_id: "\<not> endswith c (lit ''```'') \<Longrightarrow> remove_closing c = c"
  by (simp add: remove_closing_def)

text \<open>A stripped text is a fixed point of de-fencing exactly when it carries no fence
  marker at either end: any marker found makes the result strictly shorter.\<close>

lemma clean_fixpoint_iff:
  assumes "stripped y"
  shows "clean_yaml_response self y = y \<longleftrightarrow>
         \<not> startswith y (lit ''```'') \<and> \<not> endswith y (lit ''```'')"
proof -
  have s: "strip y = y" using assms by (rule strip_stripped)
  show ?thesis
  proof (cases "startswith y (lit ''```'')")
    case True
    then have "length (remove_opening y) < length y" by (rule remove_opening_shorter)
    with remove_closing_length [of "remove_opening y"]
    have "length (clean_yaml_response self y) < length y" by (simp add: clean_phases s)
    with True show ?thesis by auto
  next
    case False
    then have o: "remove_opening y = y" by (rule remove_opening_id)
    show ?thesis
    proof (cases "endswith y (lit ''```'')")
      case True
      then have "length (remove_closing y) < length y" by (rule remove_closing_shorter)
      then have "length (clean_yaml_response self y) < length y" by (simp add: clean_phases s o)
      with True show ?thesis by auto
    next
      case e: False
      with False show ?thesis by (simp add: clean_phases s o remove_closing_id)
    qed
  qed
qed

text \<open>What the first step removes from a stripped text: at most one opening marker and
  the whitespace after it. For the \<^verbatim>\<open>```yml\<close> marker the source drops seven
  characters although the marker has six; the lemma covers that marker when the seventh
  character is whitespace or absent.\<close>

lemma opening_shape:
  assumes st: "stripped t"
    and yml: "startswith t (lit ''```yml'') \<Longrightarrow> length t \<le> 6 \<or> is_space (t ! 6)"
  shows "\<exists>opening w. opening \<in> {[], lit ''```'', lit ''```yaml'', lit ''```yml''} \<and>
            list_all is_space w \<and> t = opening @ w @ remove_opening t"
proof -
  have dropn: "\<exists>w. list_all is_space w \<and> drop n t = w @ strip (drop n t)" for n
  proof -
    obtain a b where a: "list_all is_space a" and b: "list_all is_space b"
      and d: "drop n t = a @ strip (drop n t) @ b"
      using strip_decomp [of "drop n t"] by blast
    have "t = (take n t @ a @ strip (drop n t)) @ b"
      using d by (metis append.assoc append_take_drop_id)
    then have "b = []" using st b by (blast intro: stripped_no_trailing)
    with a d show ?thesis by auto
  qed
  show ?thesis
  proof (cases "startswith t (lit ''```yaml'')")
    case True
    then have "t = lit ''```yaml'' @ drop 7 t" using startswith_drop by fastforce
    moreover obtain w where "list_all is_space w" "drop 7 t = w @ strip (drop 7 t)"
      using dropn by blast
    ultimately have "list_all is_space w \<and> t = lit ''```yaml'' @ w @ remove_opening t"
      using True by (simp add: remove_opening_def)
    then show ?thesis by blast
  next
    case nyaml: False
    show ?thesis
    proof (cases "startswith t (lit ''```yml'')")
      case True
      then have t6: "t = lit ''```yml'' @ drop 6 t" using startswith_drop by fastforce
      obtain w where w: "list_all is_space w" "drop 7 t = w @ strip (drop 7 t)"
        using dropn by blast
      have r: "remove_opening t = strip (drop 7 t)"
        using True nyaml by (simp add: remove_opening_def)
      show ?thesis
      proof (cases "length t \<le> 6")
        case True
        then have "drop 6 t = []" "drop 7 t = []" by simp_all
        with t6 r have "list_all is_space [] \<and> t = lit ''```yml'' @ [] @ remove_opening t"
          by (simp add: strip_def)
        then show ?thesis by blast
      next
        case False
        with yml \<open>startswith t (lit ''```yml'')\<close> have sp: "is_space (t ! 6)" by blast
        from False have "drop 6 t = t ! 6 # drop 7 t"
          using Cons_nth_drop_Suc [of 6 t] by simp
        with t6 w r sp
        have "list_all is_space (t ! 6 # w) \<and> t = lit ''```yml'' @ (t ! 6 # w) @ remove_opening t"
          by simp
        then show ?thesis by blast
      qed
    next
      case nyml: False
      show ?thesis
      proof (cases "startswith t (lit ''```'')")
        case True
        then have "t = lit ''```'' @ drop 3 t" using startswith_drop by fastforce
        moreover obtain w where "list_all is_space w" "drop 3 t = w @ strip (drop 3 t)"
          using dropn by blast
        ultimately have "list_all is_space w \<and> t = lit ''```'' @ w @ remove_opening t"
          using True nyaml nyml by (simp add: remove_opening_def)
        then show ?thesis by blast
      next
        case False
        then have "list_all is_space [] \<and> t = [] @ [] @ remove_opening t"
          by (simp add: remove_opening_id)
        then show ?thesis by blast
      qed
    qed
  qed
qed

text \<open>What the second step removes from a stripped text: at most one closing marker and
  the whitespace before it.\<close>

lemma closing_shape:
  assumes st: "stripped c"
  shows "\<exists>w closing. closing \<in> {[], lit ''```''} \<and> list_all is_space w \<and>
            c = remove_closing c @ w @ closing"
proof (cases "endswith c (lit ''```'')")
  case True
  let ?e = "take (length c - 3) c"
  from True have c: "c = ?e @ lit ''```''" using endswith_take by fastforce
  obtain a b where a: "list_all is_space a" and b: "list_all is_space b"
    and d: "?e = a @ strip ?e @ b"
    using strip_decomp [of ?e] by blast
  have "c = a @ (strip ?e @ b @ lit ''```'')"
    using c d by (metis append.assoc)
  then have "a = []" using st a by (blast intro: stripped_no_leading)
  with d have "?e = strip ?e @ b" by simp
  with c have "c = strip ?e @ b @ lit ''```''" by (metis append.assoc)
  moreover have "remove_closing c = strip ?e" using True by (simp add: remove_closing_def)
  ultimately have "list_all is_space b \<and> c = remove_closing c @ b @ lit ''```''"
    using b by simp
  then show ?thesis by blast
next
  case False
  then have "list_all is_space [] \<and> c = remove_closing c @ [] @ []"
    by (simp add: remove_closing_id)
  then show ?thesis by blast
qed

lemma stripped_remove_opening: "stripped t \<Longrightarrow> stripped (remove_opening t)"
  by (simp add: remove_opening_def stripped_strip)

lemma clean_shape:
  assumes "startswith (strip x) (lit ''```yml'') \<Longrightarrow>
           length (strip x) \<le> 6 \<or> is_space (strip x ! 6)"
  shows "\<exists>opening w1 w2 closing.
           opening \<in> {[], lit ''```'', lit ''```yaml'', lit ''```yml''} \<and>
           closing \<in> {[], lit ''```''} \<and> list_all is_space w1 \<and> list_all is_space w2 \<and>
           strip x = opening @ w1 @ clean_yaml_response self x @ w2 @ closing"
proof -
  obtain p w1 where
    o: "p \<in> {[], lit ''```'', lit ''```yaml'', lit ''```yml''}" "list_all is_space w1"
    and t: "strip x = p @ w1 @ remove_opening (strip x)"
    using opening_shape [OF stripped_strip assms] by blast
  have "stripped (remove_opening (strip x))"
    by (rule stripped_remove_opening [OF stripped_strip])
  then obtain w2 q where
    c: "q \<in> {[], lit ''```''}" "list_all is_space w2"
    and m: "remove_opening (strip x) = clean_yaml_response self x @ w2 @ q"
    using closing_shape [of "remove_opening (strip x)"] by (auto simp: clean_phases)
  from t m have "strip x = p @ w1 @ clean_yaml_response self x @ w2 @ q"
    by simp
  with o c show ?thesis by blast
qed

lemmas str_eval = lit_def strip_def startswith_def endswith_def is_space_def

section \<open>Claims about de-fencing\<close>

text \<open>
  Claim C9. For every text, the result of \<^verbatim>\<open>_clean_yaml_response\<close> is its own
  \<open>strip\<close>: it is empty, or neither its first nor its last character is whitespace.
  A text with no fence marker at either end (after trimming) is returned trimmed; so a
  text that carries whitespace at an end is never returned unchanged.
\<close>

theorem clean_yaml_response_trimmed:
  "clean_yaml_response self x = strip (clean_yaml_response self x) \<and>
   (clean_yaml_response self x = [] \<or>
    (\<not> is_space (hd (clean_yaml_response self x)) \<and>
     \<not> is_space (last (clean_yaml_response self x)))) \<and>
   (\<not> startswith (strip x) (lit ''```'') \<and> \<not> endswith (strip x) (lit ''```'') \<longrightarrow>
      clean_yaml_response self x = strip x) \<and>
   (strip x \<noteq> x \<longrightarrow> clean_yaml_response self x \<noteq> x)"
proof (intro conjI impI)
  show 1: "clean_yaml_response self x = strip (clean_yaml_response self x)"
    by (rule strip_stripped [OF clean_stripped, symmetric])
  show "clean_yaml_response self x = [] \<or>
    (\<not> is_space (hd (clean_yaml_response self x)) \<and>
     \<not> is_space (last (clean_yaml_response self x)))"
    using clean_stripped [of self x] by (simp add: stripped_def)
  show "clean_yaml_response self x = strip x"
    if "\<not> startswith (strip x) (lit ''```'') \<and> \<not> endswith (strip x) (lit ''```'')"
    using that by (simp add: clean_phases remove_opening_id remove_closing_id)
  show "clean_yaml_response self x \<noteq> x" if "strip x \<noteq> x"
  proof
    assume "clean_yaml_response self x = x"
    with 1 have "strip x = x" by simp
    with that show False by simp
  qed
qed

text \<open>The claim at an unfenced text with a leading space and a trailing newline.\<close>

theorem clean_yaml_response_trimmed_witness:
  "strip (lit '' name: X\<newline>'') \<noteq> lit '' name: X\<newline>'' \<and>
   \<not> startswith (strip (lit '' name: X\<newline>'')) (lit ''```'') \<and>
   \<not> endswith (strip (lit '' name: X\<newline>'')) (lit ''```'') \<and>
   clean_yaml_response (ResumeCustomizer []) (lit '' name: X\<newline>'') = lit ''name: X'' \<and>
   clean_yaml_response (ResumeCustomizer []) (lit '' name: X\<newline>'') \<noteq> lit '' name: X\<newline>''"
  using clean_yaml_response_trimmed [of "ResumeCustomizer []" "lit '' name: X\<newline>''"]
  by (simp add: str_eval)

text \<open>
  Claim C1, as stated, fails: de-fencing removes one pair of markers per call, so a text
  fenced twice loses its second pair only on the second call. At the text
  \<^verbatim>\<open>```\n```yaml\nname: X\n```\n```\<close> the first call returns
  \<^verbatim>\<open>```yaml\nname: X\n```\<close> and the second \<^verbatim>\<open>name: X\<close>.
\<close>

theorem clean_yaml_response_nested_fence:
  "clean_yaml_response (ResumeCustomizer [])
     (clean_yaml_response (ResumeCustomizer [])
        (lit ''```\<newline>```yaml\<newline>name: X\<newline>```\<newline>```'')) \<noteq>
   clean_yaml_response (ResumeCustomizer [])
     (lit ''```\<newline>```yaml\<newline>name: X\<newline>```\<newline>```'')"
  by (simp add: clean_yaml_response_def str_eval)

text \<open>
  Claim C1, amended. De-fencing a second time changes nothing exactly when the first result
  has no fence marker left at either end, which is the case whenever the input (trimmed)
  has none. One call removes at most one opening marker (\<^verbatim>\<open>```yaml\<close>,
  \<^verbatim>\<open>```yml\<close> or \<^verbatim>\<open>```\<close>) and at most one closing \<^verbatim>\<open>```\<close>, and
  besides them only whitespace next to them: the trimmed input is the opening marker,
  whitespace, the result, whitespace, the closing marker. For the \<^verbatim>\<open>```yml\<close>
  marker this is stated when the character after the marker is whitespace or absent.
\<close>

theorem clean_yaml_response_single_pass:
  "(clean_yaml_response self (clean_yaml_response self x) = clean_yaml_response self x \<longleftrightarrow>
      \<not> startswith (clean_yaml_response self x) (lit ''```'') \<and>
      \<not> endswith (clean_yaml_response self x) (lit ''```'')) \<and>
   (\<not> startswith (strip x) (lit ''```'') \<and> \<not> endswith (strip x) (lit ''```'') \<longrightarrow>
      clean_yaml_response self (clean_yaml_response self x) = clean_yaml_response self x) \<and>
   ((startswith (strip x) (lit ''```yml'') \<longrightarrow>
       length (strip x) \<le> 6 \<or> is_space (strip x ! 6)) \<longrightarrow>
    (\<exists>opening w1 w2 closing.
       opening \<in> {[], lit ''```'', lit ''```yaml'', lit ''```yml''} \<and>
       closing \<in> {[], lit ''```''} \<and> list_all is_space w1 \<and> list_all is_space w2 \<and>
       strip x = opening @ w1 @ clean_yaml_response self x @ w2 @ closing))"
proof (intro conjI impI)
  show "clean_yaml_response self (clean_yaml_response self x) = clean_yaml_response self x \<longleftrightarrow>
      \<not> startswith (clean_yaml_response self x) (lit ''```'') \<and>
      \<not> endswith (clean_yaml_response self x) (lit ''```'')"
    by (rule clean_fixpoint_iff [OF clean_stripped])
  show "clean_yaml_response self (clean_yaml_response self x) = clean_yaml_response self x"
    if "\<not> startswith (strip x) (lit ''```'') \<and> \<not> endswith (strip x) (lit ''```'')"
  proof -
    from that have "clean_yaml_response self x = strip x"
      by (simp add: clean_phases remove_opening_id remove_closing_id)
    then show ?thesis by (simp add: clean_strip)
  qed
  show "\<exists>opening w1 w2 closing.
       opening \<in> {[], lit ''```'', lit ''```yaml'', lit ''```yml''} \<and>
       closing \<in> {[], lit ''```''} \<and> list_all is_space w1 \<and> list_all is_space w2 \<and>
       strip x = opening @ w1 @ clean_yaml_response self x @ w2 @ closing"
    if "startswith (strip x) (lit ''```yml'') \<longrightarrow>
       length (strip x) \<le> 6 \<or> is_space (strip x ! 6)"
    using that by (intro clean_shape) blast
qed

text \<open>The amended claim at a text fenced with \<^verbatim>\<open>```yml\<close>, and at an unfenced
  text.\<close>

theorem clean_yaml_response_single_pass_witness:
  "startswith (strip (lit ''```yml\<newline>name: X\<newline>```'')) (lit ''```yml'') \<and>
   is_space (strip (lit ''```yml\<newline>name: X\<newline>```'') ! 6) \<and>
   clean_yaml_response (ResumeCustomizer []) (lit ''```yml\<newline>name: X\<newline>```'') = lit ''name: X'' \<and>
   (\<exists>opening w1 w2 closing.
       opening \<in> {[], lit ''```'', lit ''```yaml'', lit ''```yml''} \<and>
       closing \<in> {[], lit ''```''} \<and> list_all is_space w1 \<and> list_all is_space w2 \<and>
       strip (lit ''```yml\<newline>name: X\<newline>```'') =
         opening @ w1 @ lit ''name: X'' @ w2 @ closing) \<and>
   \<not> startswith (strip (lit ''name: X'')) (lit ''```'') \<and>
   \<not> endswith (strip (lit ''name: X'')) (lit ''```'') \<and>
   clean_yaml_response (ResumeCustomizer [])
     (clean_yaml_response (ResumeCustomizer []) (lit ''name: X'')) =
   clean_yaml_response (ResumeCustomizer []) (lit ''name: X'')"
proof -
  have c: "clean_yaml_response (ResumeCustomizer []) (lit ''```yml\<newline>name: X\<newline>```'') = lit ''name: X''"
    by (simp add: clean_yaml_response_def str_eval)
  have h: "startswith (strip (lit ''```yml\<newline>name: X\<newline>```'')) (lit ''```yml'') \<and>
     is_space (strip (lit ''```yml\<newline>name: X\<newline>```'') ! 6)"
    by (simp add: str_eval)
  have u: "\<not> startswith (strip (lit ''name: X'')) (lit ''```'') \<and>
     \<not> endswith (strip (lit ''name: X'')) (lit ''```'')"
    by (simp add: str_eval)
  from clean_yaml_response_single_pass [of "ResumeCustomizer []" "lit ''```yml\<newline>name: X\<newline>```''"] h
  have "\<exists>opening w1 w2 closing.
       opening \<in> {[], lit ''```'', lit ''```yaml'', lit ''```yml''} \<and>
       closing \<in> {[], lit ''```''} \<and> list_all is_space w1 \<and> list_all is_space w2 \<and>
       strip (lit ''```yml\<newline>name: X\<newline>```'') =
         opening @ w1 @ clean_yaml_response (ResumeCustomizer []) (lit ''```yml\<newline>name: X\<newline>```'') @ w2 @ closing"
    by blast
  with c h u clean_yaml_response_single_pass [of "ResumeCustomizer []" "lit ''name: X''"]
  show ?thesis by simp
qed

text \<open>The case left out above: after \<^verbatim>\<open>```yml\<close> the source drops seven characters,
  one more than the marker has, so a character that follows the marker directly is
  lost.\<close>

lemma yml_marker_drops_a_character:
  "clean_yaml_response (ResumeCustomizer []) (lit ''```ymlname: X\<newline>```'') = lit ''ame: X''"
  by (simp add: clean_yaml_response_def str_eval)


section \<open>The pipeline: states and traces\<close>

lemma trace_emit [simp]: "trace (emit evs st) = trace st @ evs"
  by (simp add: emit_def)

lemma files_emit [simp]: "files (emit evs st) = files st"
  by (simp add: emit_def)

lemma trace_echo [simp]: "trace (echo m st) = trace st @ [Stdout m]"
  by (simp add: echo_def)

lemma files_echo [simp]: "files (echo m st) = files st"
  by (simp add: echo_def)

lemma trace_echo_err [simp]: "trace (echo_err m st) = trace st @ [Stderr m]"
  by (simp add: echo_err_def)

lemma files_echo_err [simp]: "files (echo_err m st) = files st"
  by (simp add: echo_err_def)

lemma since_append [simp]: "trace st' = trace st @ evs \<Longrightarrow> since st st' = evs"
  by (simp add: since_def)

lemma updated_self:
  "self\<lparr>api_key := key, client := OpenAI url key\<rparr> = \<lparr>api_key = key, client = OpenAI url key\<rparr>"
  by (cases self) simp

lemma create_prompt_self: "create_prompt self r j = create_prompt self' r j"
  by (simp add: create_prompt_def)

lemma clean_self: "clean_yaml_response self x = clean_yaml_response self' x"
  by (simp add: clean_phases)

lemmas method_defs = read_file_def call_openrouter_def make_api_call_def save_temp_resume_def
  render_resume_def close_temporary_file_def

lemmas outcome_splits = option.splits sum.splits load_result.splits run_result.splits
  prod.splits if_splits

lemma since_same [simp]: "since st st = []"
  by (simp add: since_def)

lemmas trace_projections = requests_def file_writes_def subprocesses_def stderr_lines_def
  stdout_lines_def

lemmas pipeline_defs = customize_resume_def method_defs Let_def create_prompt_def updated_self

lemma lit_eq_iff [simp]: "lit a = lit b \<longleftrightarrow> a = b"
  unfolding lit_def by (rule inj_map_eq_map) (simp add: inj_on_def)

lemma lit_Nil_iff [simp]: "lit a = [] \<longleftrightarrow> a = []"
  by (simp add: lit_def)

lemma customize_resume_ok_iff:
  "fst (customize_resume self rf jf out e st) = Inr () \<longleftrightarrow> steps_succeed e rf jf"
  by (auto simp: customize_resume_def steps_succeed_def method_defs Let_def ResumeCustomizer_def
        create_prompt_def clean_phases updated_self
      split: outcome_splits)

lemma customize_resume_no_key:
  "getenv e (lit ''OPENROUTER_API_KEY'') = None \<Longrightarrow>
   customize_resume self rf jf out e st = (Inl (ClickException missing_key_message), st)"
  by (simp add: customize_resume_def)

lemma guidance_in_message:
  "sublist (lit ''Please set OPENROUTER_API_KEY in your .env file'') missing_key_message"
  unfolding sublist_def
  apply (rule exI [of _ "lit ''OpenRouter API key not found. ''"])
  apply (rule exI [of _ "lit (''.\<newline>'' @ ''Example .env file:\<newline>'' @
     ''OPENROUTER_API_KEY=sk-or-v1-your-key-here'')"])
  apply (simp add: missing_key_message_def lit_def)
  done

lemma render_resume_files: "files (snd (render_resume self temp_file output_name e st)) = files st"
  by (simp add: render_resume_def Let_def split: run_result.splits prod.splits)

lemma save_temp_resume_files:
  "save_temp_resume self content e before = (Inr temp_file, st) \<Longrightarrow>
   files st temp_file = Some content"
  by (auto simp: save_temp_resume_def close_temporary_file_def Let_def split: sum.splits)


section \<open>Claims about the prompt\<close>

text \<open>
  Claim C4. The prompt builder is a function of the resume text and the job-posting text
  alone: equal inputs give equal request texts, whatever the state of the customizer
  object on which the method is called. (It takes no outside world and no state: it
  reads and writes nothing else.)
\<close>

theorem create_prompt_deterministic:
  "(resume_content = resume_content' \<and> job_posting = job_posting' \<longrightarrow>
      create_prompt self resume_content job_posting =
      create_prompt self' resume_content' job_posting') \<and>
   create_prompt self resume_content job_posting =
     create_prompt self' resume_content job_posting"
  by (simp add: create_prompt_def)

text \<open>The claim at two customizer objects with different keys.\<close>

theorem create_prompt_deterministic_witness:
  "lit ''name: Jane Doe'' = lit ''name: Jane Doe'' \<and>
   lit ''Looking for a Python engineer'' = lit ''Looking for a Python engineer'' \<and>
   create_prompt (ResumeCustomizer []) (lit ''name: Jane Doe'') (lit ''Looking for a Python engineer'') =
   create_prompt (ResumeCustomizer (lit ''sk-or-v1-0000'')) (lit ''name: Jane Doe'')
     (lit ''Looking for a Python engineer'')"
  using create_prompt_deterministic [of "lit ''name: Jane Doe''" "lit ''name: Jane Doe''"
      "lit ''Looking for a Python engineer''" "lit ''Looking for a Python engineer''"
      "ResumeCustomizer []" "ResumeCustomizer (lit ''sk-or-v1-0000'')"]
  by simp

text \<open>
  Claim C5. The one request \<^verbatim>\<open>call_openrouter\<close> sends carries one message of the
  role \<^verbatim>\<open>user\<close> whose content is the fixed preamble, the line that announces the
  job posting, the job posting verbatim, the line that announces the resume, the resume
  verbatim and the fixed list of instructions, in this order. Both inputs are contiguous
  parts of that content, and everything else in it is literal text of 1968 characters
  that does not depend on the inputs.
\<close>

theorem request_is_template_around_inputs:
  "requests (since st (snd (call_openrouter self resume_content job_posting e st))) =
     [(client self,
       \<lparr>extra_headers =
          [(lit ''HTTP-Referer'', lit ''https://github.com/    -repo/resume-customizer''),
           (lit ''X-Title'', lit ''Resume Customizer CLI'')],
        model = lit ''openai/gpt-5-mini'',
        messages =
          [(lit ''user'', system_message @ create_prompt self resume_content job_posting)]\<rparr>)] \<and>
   system_message @ create_prompt self resume_content job_posting =
     lit
      (''You are an expert resume writer and ATS optimization specialist. You will receive a resume in YAML format and a job posting. Your task is to modify ONLY the highlights in the Experience section and the Technologies section to better match the job posting while keeping all other content exactly the same.\<newline>'' @
       ''\<newline>'') @
     lit
      (''\<newline>'' @
       ''JOB POSTING:\<newline>'') @
     job_posting @
     lit
      (''\<newline>'' @
       ''\<newline>'' @
       ''CURRENT RESUME (YAML format):\<newline>'') @
     resume_content @
     lit
      (''\<newline>'' @
       ''\<newline>'' @
       ''INSTRUCTIONS:\<newline>'' @
       ''Please modify the resume to better match this job posting. You must:\<newline>'' @
       ''\<newline>'' @
       ''1. EXPERIENCE SECTION HIGHLIGHTS:\<newline>'' @
       ''   - Reorder the highlights (bullet points) within each job in the Experience section\<newline>'' @
       ''   - Put the most relevant highlights first based on the job posting requirements\<newline>'' @
       ''   - Keep all highlights but reorder them by relevance to the job posting\<newline>'' @
       ''   - Do not add, remove, or modify the content of highlights - only reorder them\<newline>'' @
       ''\<newline>'' @
       ''2. TECHNOLOGIES SECTION:\<newline>'' @
       ''   - Remove technologies that are not relevant at all to the job posting\<newline>'' @
       ''   - Keep technologies that are mentioned or very closely related to those in the job posting\<newline>'' @
       ''   - Reorder the technologies to put the most relevant ones first, and reorder each technology category if needed.\<newline>'' @
       ''   - Add important technologies from the job posting that are missing but would be relevant. \<newline>'' @
       ''   - Only add important technologies that are equivalents or very closely related to those already listed in the resume.\<newline>'' @
       ''   - Only modify the \"details\" field within each technology category\<newline>'' @
       ''   - Maintain the same technology categories/labels\<newline>'' @
       ''\<newline>'' @
       ''3. IMPORTANT RESTRICTIONS:\<newline>'' @
       ''   - ONLY modify the highlights in the Experience section and details in the Technologies section\<newline>'' @
       ''   - Keep all other sections, formatting, and content exactly the same\<newline>'' @
       ''   - Return the complete modified YAML with proper formatting\<newline>'' @
       ''   - Do not change section names, structure, or any other content\<newline>'' @
       ''\<newline>'' @
       ''CRITICAL: Return ONLY the raw YAML content. Do not wrap it in code blocks, markdown, or any other formatting. Return the YAML exactly as it should be parsed. Be direct and focused in your modifications.\<newline>'') \<and>
   sublist job_posting (system_message @ create_prompt self resume_content job_posting) \<and>
   sublist resume_content (system_message @ create_prompt self resume_content job_posting) \<and>
   length (system_message @ create_prompt self resume_content job_posting) =
     length job_posting + length resume_content + 1968"
proof (intro conjI)
  show "requests (since st (snd (call_openrouter self resume_content job_posting e st))) =
     [(client self,
       \<lparr>extra_headers =
          [(lit ''HTTP-Referer'', lit ''https://github.com/    -repo/resume-customizer''),
           (lit ''X-Title'', lit ''Resume Customizer CLI'')],
        model = lit ''openai/gpt-5-mini'',
        messages =
          [(lit ''user'', system_message @ create_prompt self resume_content job_posting)]\<rparr>)]"
    by (simp add: call_openrouter_def make_api_call_def completion_request_def Let_def
        requests_def split: sum.splits)
  show "system_message @ create_prompt self resume_content job_posting =
     lit
      (''You are an expert resume writer and ATS optimization specialist. You will receive a resume in YAML format and a job posting. Your task is to modify ONLY the highlights in the Experience section and the Technologies section to better match the job posting while keeping all other content exactly the same.\<newline>'' @
       ''\<newline>'') @
     lit
      (''\<newline>'' @
       ''JOB POSTING:\<newline>'') @
     job_posting @
     lit
      (''\<newline>'' @
       ''\<newline>'' @
       ''CURRENT RESUME (YAML format):\<newline>'') @
     resume_content @
     lit
      (''\<newline>'' @
       ''\<newline>'' @
       ''INSTRUCTIONS:\<newline>'' @
       ''Please modify the resume to better match this job posting. You must:\<newline>'' @
       ''\<newline>'' @
       ''1. EXPERIENCE SECTION HIGHLIGHTS:\<newline>'' @
       ''   - Reorder the highlights (bullet points) within each job in the Experience section\<newline>'' @
       ''   - Put the most relevant highlights first based on the job posting requirements\<newline>'' @
       ''   - Keep all highlights but reorder them by relevance to the job posting\<newline>'' @
       ''   - Do not add, remove, or modify the content of highlights - only reorder them\<newline>'' @
       ''\<newline>'' @
       ''2. TECHNOLOGIES SECTION:\<newline>'' @
       ''   - Remove technologies that are not relevant at all to the job posting\<newline>'' @
       ''   - Keep technologies that are mentioned or very closely related to those in the job posting\<newline>'' @
       ''   - Reorder the technologies to put the most relevant ones first, and reorder each technology category if needed.\<newline>'' @
       ''   - Add important technologies from the job posting that are missing but would be relevant. \<newline>'' @
       ''   - Only add important technologies that are equivalents or very closely related to those already listed in the resume.\<newline>'' @
       ''   - Only modify the \"details\" field within each technology category\<newline>'' @
       ''   - Maintain the same technology categories/labels\<newline>'' @
       ''\<newline>'' @
       ''3. IMPORTANT RESTRICTIONS:\<newline>'' @
       ''   - ONLY modify the highlights in the Experience section and details in the Technologies section\<newline>'' @
       ''   - Keep all other sections, formatting, and content exactly the same\<newline>'' @
       ''   - Return the complete modified YAML with proper formatting\<newline>'' @
       ''   - Do not change section names, structure, or any other content\<newline>'' @
       ''\<newline>'' @
       ''CRITICAL: Return ONLY the raw YAML content. Do not wrap it in code blocks, markdown, or any other formatting. Return the YAML exactly as it should be parsed. Be direct and focused in your modifications.\<newline>'')"
    unfolding create_prompt_def system_message_def prompt_before_job_def
      prompt_before_resume_def prompt_instructions_def
    by (rule refl)
  show "sublist job_posting (system_message @ create_prompt self resume_content job_posting)"
    unfolding create_prompt_def sublist_def
    by (metis append.assoc)
  show "sublist resume_content (system_message @ create_prompt self resume_content job_posting)"
    unfolding create_prompt_def sublist_def
    by (metis append.assoc)
  have "length system_message = 306" "length prompt_before_job = 14"
    "length prompt_before_resume = 32" "length prompt_instructions = 1616"
    by (simp_all add: system_message_def prompt_before_job_def prompt_before_resume_def
        prompt_instructions_def lit_def)
  then show "length (system_message @ create_prompt self resume_content job_posting) =
     length job_posting + length resume_content + 1968"
    by (simp add: create_prompt_def)
qed

section \<open>Claims about the pipeline\<close>

text \<open>
  Claim C2. If the text read from the resume file does not validate, the run ends in an
  exception and has sent no request, staged no file and started no subprocess; when the
  parser raised a \<^verbatim>\<open>YAMLError\<close> (and the credential and both files were there) the
  exception is the \<^verbatim>\<open>ClickException\<close> for an invalid resume, raised right after the
  two reads. If the de-fenced answer of the service does not validate, the run ends in an
  exception with the request as its last action: the files are as before, nothing was
  staged and no renderer was started.
\<close>

theorem validation_halts_pipeline:
  "(open_read e rf = Inr resume_content \<and> safe_load e resume_content \<noteq> Loaded \<longrightarrow>
      isl (fst (customize_resume self rf jf out e st)) \<and>
      requests (since st (snd (customize_resume self rf jf out e st))) = [] \<and>
      file_writes (since st (snd (customize_resume self rf jf out e st))) = [] \<and>
      subprocesses (since st (snd (customize_resume self rf jf out e st))) = []) \<and>
   (getenv e (lit ''OPENROUTER_API_KEY'') = Some key \<and> key \<noteq> [] \<and>
    open_read e rf = Inr resume_content \<and> open_read e jf = Inr job_posting \<and>
    safe_load e resume_content = YAMLError err \<longrightarrow>
      customize_resume self rf jf out e st =
        (Inl (ClickException (lit ''Invalid YAML format in resume file: '' @ err)),
         emit [ReadFile rf, ReadFile jf] st)) \<and>
   (getenv e (lit ''OPENROUTER_API_KEY'') = Some key \<and> key \<noteq> [] \<and>
    open_read e rf = Inr resume_content \<and> open_read e jf = Inr job_posting \<and>
    safe_load e resume_content = Loaded \<and>
    completions_create e (OpenAI (lit ''https://openrouter.ai/api/v1'') key)
      (completion_request (system_message @ create_prompt self resume_content job_posting)) =
      Inr content \<and>
    safe_load e (clean_yaml_response self (strip content)) \<noteq> Loaded \<longrightarrow>
      isl (fst (customize_resume self rf jf out e st)) \<and>
      since st (snd (customize_resume self rf jf out e st)) =
        [ReadFile rf, ReadFile jf, Stdout (lit ''Customizing resume with AI...''),
         Request (OpenAI (lit ''https://openrouter.ai/api/v1'') key)
           (completion_request (system_message @ create_prompt self resume_content job_posting))] \<and>
      files (snd (customize_resume self rf jf out e st)) = files st \<and>
      (\<forall>err. safe_load e (clean_yaml_response self (strip content)) = YAMLError err \<longrightarrow>
         fst (customize_resume self rf jf out e st) =
           Inl (ClickException (lit ''AI returned invalid YAML: '' @ err))))"
proof (intro conjI impI)
  assume "open_read e rf = Inr resume_content \<and> safe_load e resume_content \<noteq> Loaded"
  then have h: "open_read e rf = Inr resume_content" "safe_load e resume_content \<noteq> Loaded"
    by simp_all
  let ?R = "customize_resume self rf jf out e st"
  from h have "isl (fst ?R) \<and> (\<exists>evs. trace (snd ?R) = trace st @ evs \<and> set evs \<subseteq> {ReadFile rf, ReadFile jf})"
    by (auto simp: customize_resume_def read_file_def Let_def
        split: option.splits sum.splits load_result.splits)
  then obtain evs where i: "isl (fst ?R)" and t: "trace (snd ?R) = trace st @ evs"
    and s: "set evs \<subseteq> {ReadFile rf, ReadFile jf}" by blast
  from t have e: "since st (snd ?R) = evs" by simp
  have "\<forall>x \<in> set evs. x = ReadFile rf \<or> x = ReadFile jf" using s by auto
  then have "requests evs = [] \<and> file_writes evs = [] \<and> subprocesses evs = []"
    by (induction evs) (auto simp: trace_projections)
  with i e show "isl (fst ?R)" "requests (since st (snd ?R)) = []"
    "file_writes (since st (snd ?R)) = []" "subprocesses (since st (snd ?R)) = []"
    by simp_all
next
  assume "getenv e (lit ''OPENROUTER_API_KEY'') = Some key \<and> key \<noteq> [] \<and>
    open_read e rf = Inr resume_content \<and> open_read e jf = Inr job_posting \<and>
    safe_load e resume_content = YAMLError err"
  then show "customize_resume self rf jf out e st =
        (Inl (ClickException (lit ''Invalid YAML format in resume file: '' @ err)),
         emit [ReadFile rf, ReadFile jf] st)"
    by (simp add: customize_resume_def read_file_def Let_def emit_def)
next
  assume a: "getenv e (lit ''OPENROUTER_API_KEY'') = Some key \<and> key \<noteq> [] \<and>
    open_read e rf = Inr resume_content \<and> open_read e jf = Inr job_posting \<and>
    safe_load e resume_content = Loaded \<and>
    completions_create e (OpenAI (lit ''https://openrouter.ai/api/v1'') key)
      (completion_request (system_message @ create_prompt self resume_content job_posting)) =
      Inr content \<and>
    safe_load e (clean_yaml_response self (strip content)) \<noteq> Loaded"
  let ?R = "customize_resume self rf jf out e st"
  let ?req = "Request (OpenAI (lit ''https://openrouter.ai/api/v1'') key)
           (completion_request (system_message @ create_prompt self resume_content job_posting))"
  from a have r: "isl (fst ?R) \<and>
      snd ?R = emit [?req] (echo (lit ''Customizing resume with AI...'')
                 (emit [ReadFile jf] (emit [ReadFile rf] st))) \<and>
      (\<forall>err. safe_load e (clean_yaml_response self (strip content)) = YAMLError err \<longrightarrow>
         fst ?R = Inl (ClickException (lit ''AI returned invalid YAML: '' @ err)))"
    by (auto simp: customize_resume_def read_file_def call_openrouter_def make_api_call_def
        Let_def create_prompt_def clean_phases split: load_result.splits)
  from r show "isl (fst ?R)" by simp
  from r show "since st (snd ?R) =
        [ReadFile rf, ReadFile jf, Stdout (lit ''Customizing resume with AI...''), ?req]"
    by simp
  from r show "files (snd ?R) = files st" by simp
  from r show "\<forall>err. safe_load e (clean_yaml_response self (strip content)) = YAMLError err \<longrightarrow>
         fst ?R = Inl (ClickException (lit ''AI returned invalid YAML: '' @ err))" by simp
qed

text \<open>The claim at a malformed resume file, and at a malformed answer of the service.\<close>

theorem validation_halts_pipeline_witness:
  "open_read sample_env (lit ''broken.yaml'') = Inr (lit ''sections: ['') \<and>
   safe_load sample_env (lit ''sections: ['') = YAMLError (lit ''while parsing a flow node'') \<and>
   customize_resume (ResumeCustomizer []) (lit ''broken.yaml'') (lit ''job.txt'') (lit ''tempresume'')
       sample_env st0 =
     (Inl (ClickException (lit ''Invalid YAML format in resume file: '' @
                           lit ''while parsing a flow node'')),
      emit [ReadFile (lit ''broken.yaml''), ReadFile (lit ''job.txt'')] st0) \<and>
   requests (since st0 (snd (customize_resume (ResumeCustomizer []) (lit ''broken.yaml'')
       (lit ''job.txt'') (lit ''tempresume'') sample_env st0))) = [] \<and>
   safe_load (sample_env\<lparr>completions_create := \<lambda>c request. Inr (lit ''```yaml\<newline>sections: [\<newline>```'')\<rparr>)
     (clean_yaml_response (ResumeCustomizer []) (strip (lit ''```yaml\<newline>sections: [\<newline>```''))) =
     YAMLError (lit ''while parsing a flow node'') \<and>
   fst (customize_resume (ResumeCustomizer []) (lit ''resume.yaml'') (lit ''job.txt'')
       (lit ''tempresume'')
       (sample_env\<lparr>completions_create := \<lambda>c request. Inr (lit ''```yaml\<newline>sections: [\<newline>```'')\<rparr>) st0) =
     Inl (ClickException (lit ''AI returned invalid YAML: '' @ lit ''while parsing a flow node'')) \<and>
   since st0 (snd (customize_resume (ResumeCustomizer []) (lit ''resume.yaml'') (lit ''job.txt'')
       (lit ''tempresume'')
       (sample_env\<lparr>completions_create := \<lambda>c request. Inr (lit ''```yaml\<newline>sections: [\<newline>```'')\<rparr>) st0)) =
     [ReadFile (lit ''resume.yaml''), ReadFile (lit ''job.txt''),
      Stdout (lit ''Customizing resume with AI...''),
      Request (OpenAI (lit ''https://openrouter.ai/api/v1'') (lit ''sk-or-v1-0000''))
        (completion_request (system_message @
           create_prompt (ResumeCustomizer []) (lit ''name: Jane Doe\<newline>sections: {}'')
             (lit ''Looking for a Python engineer'')))]"
proof -
  let ?e2 = "sample_env\<lparr>completions_create := \<lambda>c request. Inr (lit ''```yaml\<newline>sections: [\<newline>```'')\<rparr>"
  have c: "clean_yaml_response (ResumeCustomizer []) (strip (lit ''```yaml\<newline>sections: [\<newline>```'')) =
        lit ''sections: [''"
    by (simp add: clean_yaml_response_def str_eval)
  note a = validation_halts_pipeline [where e = sample_env and rf = "lit ''broken.yaml''"
      and resume_content = "lit ''sections: [''" and self = "ResumeCustomizer []"
      and jf = "lit ''job.txt''" and out = "lit ''tempresume''" and st = st0
      and key = "lit ''sk-or-v1-0000''" and job_posting = "lit ''Looking for a Python engineer''"
      and err = "lit ''while parsing a flow node''"]
  note b = validation_halts_pipeline [where e = ?e2 and rf = "lit ''resume.yaml''"
      and resume_content = "lit ''name: Jane Doe\<newline>sections: {}''" and self = "ResumeCustomizer []"
      and jf = "lit ''job.txt''" and out = "lit ''tempresume''" and st = st0
      and key = "lit ''sk-or-v1-0000''" and job_posting = "lit ''Looking for a Python engineer''"
      and content = "lit ''```yaml\<newline>sections: [\<newline>```''"]
  have f: "getenv sample_env (lit ''OPENROUTER_API_KEY'') = Some (lit ''sk-or-v1-0000'')"
    "open_read sample_env (lit ''broken.yaml'') = Inr (lit ''sections: ['')"
    "open_read sample_env (lit ''resume.yaml'') = Inr (lit ''name: Jane Doe\<newline>sections: {}'')"
    "open_read sample_env (lit ''job.txt'') = Inr (lit ''Looking for a Python engineer'')"
    "safe_load sample_env (lit ''sections: ['') = YAMLError (lit ''while parsing a flow node'')"
    "safe_load sample_env (lit ''name: Jane Doe\<newline>sections: {}'') = Loaded"
    by (simp_all add: sample_env_def)
  from a b show ?thesis
    by (simp add: f c trace_projections)
qed

text \<open>
  Claim C6. \<^verbatim>\<open>render_resume\<close>: a return code other than 0 raises a
  \<^verbatim>\<open>ClickException\<close> that carries the captured error stream; a missing executable
  raises a \<^verbatim>\<open>ClickException\<close> with a message of its own, different from every
  message of the first kind; on return code 0 the method reports the name of the
  artifact and echoes the renderer's error stream on the diagnostic stream. In every case
  the files are what they were before the call, so a file staged by
  \<^verbatim>\<open>save_temp_resume\<close> is still there with its content.
\<close>

theorem render_resume_outcomes:
  "(run e (rendercv_cmd temp_file) = Completed returncode out err \<and> returncode \<noteq> 0 \<longrightarrow>
      fst (render_resume self temp_file output_name e st) =
        Inl (ClickException (lit ''Failed to render resume: '' @ err))) \<and>
   (run e (rendercv_cmd temp_file) = FileNotFoundError \<longrightarrow>
      fst (render_resume self temp_file output_name e st) =
        Inl (ClickException
          (lit ''rendercv command not found. Please ensure renderCV is installed.'')) \<and>
      lit ''rendercv command not found. Please ensure renderCV is installed.'' \<noteq>
        lit ''Failed to render resume: '' @ err) \<and>
   (run e (rendercv_cmd temp_file) = Completed 0 out err \<longrightarrow>
      fst (render_resume self temp_file output_name e st) = Inr () \<and>
      since st (snd (render_resume self temp_file output_name e st)) =
        [Subprocess (rendercv_cmd temp_file),
         Stdout (lit ''Resume rendered successfully as '' @ [39] @ output_name @
                 lit ''.pdf'' @ [39]),
         Stderr (lit ''RenderCV output:''), Stderr err,
         Stdout (lit ''Temporary YAML file saved as: '' @ temp_file),
         Stdout (lit ''You can inspect the modified resume YAML file before deleting it.'')]) \<and>
   files (snd (render_resume self temp_file output_name e st)) = files st \<and>
   (save_temp_resume self content e before = (Inr temp_file, st) \<longrightarrow>
      files (snd (render_resume self temp_file output_name e st)) temp_file = Some content)"
proof (intro conjI impI)
  assume "run e (rendercv_cmd temp_file) = Completed returncode out err \<and> returncode \<noteq> 0"
  then show "fst (render_resume self temp_file output_name e st) =
        Inl (ClickException (lit ''Failed to render resume: '' @ err))"
    by (simp add: render_resume_def Let_def)
next
  assume "run e (rendercv_cmd temp_file) = FileNotFoundError"
  then show "fst (render_resume self temp_file output_name e st) =
        Inl (ClickException
          (lit ''rendercv command not found. Please ensure renderCV is installed.''))"
    by (simp add: render_resume_def Let_def)
next
  show "lit ''rendercv command not found. Please ensure renderCV is installed.'' \<noteq>
        lit ''Failed to render resume: '' @ err"
    by (simp add: lit_def)
next
  assume r: "run e (rendercv_cmd temp_file) = Completed 0 out err"
  then show "fst (render_resume self temp_file output_name e st) = Inr ()"
    by (simp add: render_resume_def Let_def)
  from r show "since st (snd (render_resume self temp_file output_name e st)) =
        [Subprocess (rendercv_cmd temp_file),
         Stdout (lit ''Resume rendered successfully as '' @ [39] @ output_name @
                 lit ''.pdf'' @ [39]),
         Stderr (lit ''RenderCV output:''), Stderr err,
         Stdout (lit ''Temporary YAML file saved as: '' @ temp_file),
         Stdout (lit ''You can inspect the modified resume YAML file before deleting it.'')]"
    by (simp add: render_resume_def Let_def)
next
  show "files (snd (render_resume self temp_file output_name e st)) = files st"
    by (rule render_resume_files)
next
  assume "save_temp_resume self content e before = (Inr temp_file, st)"
  then show "files (snd (render_resume self temp_file output_name e st)) temp_file = Some content"
    by (simp add: render_resume_files save_temp_resume_files)
qed

text \<open>The claim after staging in the sample world, for the three outcomes of the
  renderer.\<close>

theorem render_resume_outcomes_witness:
  "fst (render_resume (ResumeCustomizer []) (lit ''/tmp/tmpk3v9.yml'') (lit ''tempresume'')
         (sample_env\<lparr>run := \<lambda>cmd. Completed 1 [] (lit ''invalid field'')\<rparr>)
         (snd (save_temp_resume (ResumeCustomizer []) (lit ''name: X'') sample_env st0))) =
     Inl (ClickException (lit ''Failed to render resume: '' @ lit ''invalid field'')) \<and>
   fst (render_resume (ResumeCustomizer []) (lit ''/tmp/tmpk3v9.yml'') (lit ''tempresume'')
         (sample_env\<lparr>run := \<lambda>cmd. FileNotFoundError\<rparr>)
         (snd (save_temp_resume (ResumeCustomizer []) (lit ''name: X'') sample_env st0))) =
     Inl (ClickException
       (lit ''rendercv command not found. Please ensure renderCV is installed.'')) \<and>
   fst (render_resume (ResumeCustomizer []) (lit ''/tmp/tmpk3v9.yml'') (lit ''tempresume'')
         sample_env
         (snd (save_temp_resume (ResumeCustomizer []) (lit ''name: X'') sample_env st0))) =
     Inr () \<and>
   save_temp_resume (ResumeCustomizer []) (lit ''name: X'') sample_env st0 =
     (Inr (lit ''/tmp/tmpk3v9.yml''),
      snd (save_temp_resume (ResumeCustomizer []) (lit ''name: X'') sample_env st0)) \<and>
   files (snd (render_resume (ResumeCustomizer []) (lit ''/tmp/tmpk3v9.yml'') (lit ''tempresume'')
         (sample_env\<lparr>run := \<lambda>cmd. Completed 1 [] (lit ''invalid field'')\<rparr>)
         (snd (save_temp_resume (ResumeCustomizer []) (lit ''name: X'') sample_env st0))))
     (lit ''/tmp/tmpk3v9.yml'') = Some (lit ''name: X'') \<and>
   files (snd (render_resume (ResumeCustomizer []) (lit ''/tmp/tmpk3v9.yml'') (lit ''tempresume'')
         (sample_env\<lparr>run := \<lambda>cmd. FileNotFoundError\<rparr>)
         (snd (save_temp_resume (ResumeCustomizer []) (lit ''name: X'') sample_env st0))))
     (lit ''/tmp/tmpk3v9.yml'') = Some (lit ''name: X'') \<and>
   files (snd (render_resume (ResumeCustomizer []) (lit ''/tmp/tmpk3v9.yml'') (lit ''tempresume'')
         sample_env
         (snd (save_temp_resume (ResumeCustomizer []) (lit ''name: X'') sample_env st0))))
     (lit ''/tmp/tmpk3v9.yml'') = Some (lit ''name: X'')"
proof -
  let ?st = "snd (save_temp_resume (ResumeCustomizer []) (lit ''name: X'') sample_env st0)"
  have s: "save_temp_resume (ResumeCustomizer []) (lit ''name: X'') sample_env st0 =
      (Inr (lit ''/tmp/tmpk3v9.yml''), ?st)"
    by (simp add: save_temp_resume_def sample_env_def Let_def)
  have r: "run sample_env (rendercv_cmd (lit ''/tmp/tmpk3v9.yml'')) =
      Completed 0 [] (lit ''Your CV is rendered'')"
    by (simp add: sample_env_def)
  note a = render_resume_outcomes [where e = "sample_env\<lparr>run := \<lambda>cmd. Completed 1 [] (lit ''invalid field'')\<rparr>"
      and temp_file = "lit ''/tmp/tmpk3v9.yml''" and returncode = 1 and out = "[]"
      and err = "lit ''invalid field''" and self = "ResumeCustomizer []"
      and output_name = "lit ''tempresume''" and st = ?st and content = "lit ''name: X''"
      and before = st0]
  note b = render_resume_outcomes [where e = "sample_env\<lparr>run := \<lambda>cmd. FileNotFoundError\<rparr>"
      and temp_file = "lit ''/tmp/tmpk3v9.yml''" and self = "ResumeCustomizer []"
      and output_name = "lit ''tempresume''" and st = ?st and content = "lit ''name: X''"
      and before = st0]
  note c = render_resume_outcomes [where e = sample_env
      and temp_file = "lit ''/tmp/tmpk3v9.yml''" and out = "[]"
      and err = "lit ''Your CV is rendered''" and self = "ResumeCustomizer []"
      and output_name = "lit ''tempresume''" and st = ?st and content = "lit ''name: X''"
      and before = st0]
  have s1: "save_temp_resume (ResumeCustomizer []) (lit ''name: X'')
      (sample_env\<lparr>run := f\<rparr>) st0 = (Inr (lit ''/tmp/tmpk3v9.yml''), ?st)" for f
    by (simp add: save_temp_resume_def sample_env_def Let_def)
  have fs: "files ?st (lit ''/tmp/tmpk3v9.yml'') = Some (lit ''name: X'')"
    using s by (rule save_temp_resume_files)
  from a b c s s1 r fs show ?thesis by simp
qed


section \<open>The command: exit code, messages, output name\<close>


lemma customize_resume_success_trace:
  "fst (customize_resume self rf jf out e st) = Inr () \<Longrightarrow>
   \<exists>evs temp_file outs err.
     run e (rendercv_cmd temp_file) = Completed 0 outs err \<and>
     trace (snd (customize_resume self rf jf out e st)) = trace st @ evs \<and>
     stderr_lines evs = [lit ''RenderCV output:'', err]"
  by (auto simp: customize_resume_def method_defs Let_def stderr_lines_def
      split: outcome_splits)

lemma stderr_lines_append [simp]: "stderr_lines (xs @ ys) = stderr_lines xs @ stderr_lines ys"
  by (simp add: stderr_lines_def)

lemma stderr_lines_simps [simp]:
  "stderr_lines [] = []"
  "stderr_lines (Stderr m # evs) = m # stderr_lines evs"
  "stderr_lines (Stdout m # evs) = stderr_lines evs"
  "stderr_lines (Notify t m # evs) = stderr_lines evs"
  "stderr_lines (ReadFile p # evs) = stderr_lines evs"
  "stderr_lines (Request c r # evs) = stderr_lines evs"
  "stderr_lines (FileWrite p m # evs) = stderr_lines evs"
  "stderr_lines (Subprocess cmd # evs) = stderr_lines evs"
  by (simp_all add: stderr_lines_def)



lemma customize_body_cases:
  "customize_body rf jf out verbose e st =
     (case fst (customize_try rf jf out verbose e st) of
        Inr u \<Rightarrow> (0, snd (customize_try rf jf out verbose e st))
      | Inl (ClickException msg) \<Rightarrow>
          (1, echo_err (cross_mark @ lit '' Error: '' @ msg)
                (snd (customize_try rf jf out verbose e st)))
      | Inl (OtherException msg) \<Rightarrow>
          (1, echo_err (cross_mark @ lit '' Unexpected error: '' @ msg)
                (snd (customize_try rf jf out verbose e st))))"
  by (cases "customize_try rf jf out verbose e st")
    (auto simp: customize_body_def split: sum.splits exn.splits)

lemma check_path_readable: "open_read e path = Inr content \<Longrightarrow> check_path e param path = None"
  by (simp add: check_path_def)

lemma check_path_notification [simp]:
  "check_path (e\<lparr>notification := x\<rparr>) param path = check_path e param path"
  by (simp add: check_path_def split: sum.splits)

lemma steps_succeed_accepted:
  "steps_succeed e rf jf \<Longrightarrow> check_path e p rf = None \<and> check_path e q jf = None"
  by (auto simp: steps_succeed_def check_path_def split: option.splits sum.splits)

lemma customize_accepted:
  "check_path e (lit ''RESUME_FILE'') rf = None \<Longrightarrow>
   check_path e (lit ''JOB_POSTING_FILE'') jf = None \<Longrightarrow>
   customize rf jf out verbose e st = customize_body rf jf out verbose e st"
  by (simp add: customize_def)

lemma customize_rejected:
  "check_path e (lit ''RESUME_FILE'') rf = Some usage \<or>
   (check_path e (lit ''RESUME_FILE'') rf = None \<and>
    check_path e (lit ''JOB_POSTING_FILE'') jf = Some usage) \<Longrightarrow>
   customize rf jf out verbose e st = (2, echo_err usage st)"
  by (auto simp: customize_def)

lemma customize_split:
  "(\<exists>usage. customize rf jf out verbose e st = (2, echo_err usage st) \<and>
      (check_path e (lit ''RESUME_FILE'') rf = Some usage \<or>
       (check_path e (lit ''RESUME_FILE'') rf = None \<and>
        check_path e (lit ''JOB_POSTING_FILE'') jf = Some usage))) \<or>
   (check_path e (lit ''RESUME_FILE'') rf = None \<and>
    check_path e (lit ''JOB_POSTING_FILE'') jf = None \<and>
    customize rf jf out verbose e st = customize_body rf jf out verbose e st)"
  by (auto simp: customize_def split: option.splits)

lemma customize_of_steps:
  "steps_succeed e rf jf \<Longrightarrow>
   customize rf jf out verbose e st = customize_body rf jf out verbose e st"
  using steps_succeed_accepted [of e rf jf] by (simp add: customize_accepted)


lemma sample_answer_clean:
  "clean_yaml_response self
     (strip (lit ''```yaml\<newline>name: Jane Doe\<newline>sections: {}\<newline>```'')) =
   lit ''name: Jane Doe\<newline>sections: {}''"
  by (simp add: clean_yaml_response_def str_eval)

lemma sample_env_fields:
  "getenv sample_env (lit ''OPENROUTER_API_KEY'') = Some (lit ''sk-or-v1-0000'')"
  "open_read sample_env (lit ''broken.yaml'') = Inr (lit ''sections: ['')"
  "open_read sample_env (lit ''resume.yaml'') = Inr (lit ''name: Jane Doe\<newline>sections: {}'')"
  "open_read sample_env (lit ''job.txt'') = Inr (lit ''Looking for a Python engineer'')"
  "safe_load sample_env (lit ''sections: ['') = YAMLError (lit ''while parsing a flow node'')"
  "safe_load sample_env (lit ''name: Jane Doe\<newline>sections: {}'') = Loaded"
  "completions_create sample_env c request =
     Inr (lit ''```yaml\<newline>name: Jane Doe\<newline>sections: {}\<newline>```'')"
  "temporary_file sample_env sfx content = Inr (lit ''/tmp/tmpk3v9.yml'')"
  "run sample_env cmd = Completed 0 [] (lit ''Your CV is rendered'')"
  "notification sample_env = None"
  by (simp_all add: sample_env_def)

lemma sample_paths_accepted:
  "open_read e = open_read sample_env \<Longrightarrow>
   check_path e param (lit ''resume.yaml'') = None \<and>
   check_path e param (lit ''job.txt'') = None \<and>
   check_path e param (lit ''broken.yaml'') = None"
  by (simp add: check_path_def sample_env_fields)

lemma sample_customize_accepted:
  assumes "open_read e = open_read sample_env"
  shows "customize (lit ''resume.yaml'') (lit ''job.txt'') out verbose e st =
         customize_body (lit ''resume.yaml'') (lit ''job.txt'') out verbose e st"
    and "customize (lit ''broken.yaml'') (lit ''job.txt'') out verbose e st =
         customize_body (lit ''broken.yaml'') (lit ''job.txt'') out verbose e st"
  using sample_paths_accepted [OF assms] by (simp_all add: customize_accepted)




lemma customize_resume_output_rel:
  assumes "files s1 = files s2"
  shows "fst (customize_resume self rf jf out1 e s1) = fst (customize_resume self rf jf out2 e s2) \<and>
     files (snd (customize_resume self rf jf out1 e s1)) =
     files (snd (customize_resume self rf jf out2 e s2)) \<and>
     (\<exists>ev1 ev2.
        trace (snd (customize_resume self rf jf out1 e s1)) = trace s1 @ ev1 \<and>
        trace (snd (customize_resume self rf jf out2 e s2)) = trace s2 @ ev2 \<and>
        list_all2 (differ_by_output_name out1 out2) ev1 ev2)"
  using assms
  by (auto simp: customize_resume_def method_defs Let_def differ_by_output_name_def
      split: outcome_splits)

lemma differ_projections:
  "list_all2 (differ_by_output_name out1 out2) xs ys \<Longrightarrow>
   subprocesses xs = subprocesses ys \<and> requests xs = requests ys \<and>
   file_writes xs = file_writes ys \<and> stderr_lines xs = stderr_lines ys"
  by (induction rule: list_all2_induct)
    (auto simp: differ_by_output_name_def trace_projections)

lemma differ_refl: "differ_by_output_name out1 out2 a a"
  by (simp add: differ_by_output_name_def)

lemma customize_try_output_rel:
  "fst (customize_try rf jf out1 verbose e st) = fst (customize_try rf jf out2 verbose e st) \<and>
   files (snd (customize_try rf jf out1 verbose e st)) =
   files (snd (customize_try rf jf out2 verbose e st)) \<and>
   (\<exists>ev1 ev2.
      trace (snd (customize_try rf jf out1 verbose e st)) = trace st @ ev1 \<and>
      trace (snd (customize_try rf jf out2 verbose e st)) = trace st @ ev2 \<and>
      list_all2 (differ_by_output_name out1 out2) ev1 ev2)"
proof -
  let ?v = "\<lambda>out. if verbose
           then echo (lit ''Output: '' @ out)
                  (echo (lit ''Job posting: '' @ jf)
                    (echo (lit ''Processing resume: '' @ rf) st))
           else st"
  let ?R = "\<lambda>out. customize_resume (ResumeCustomizer []) rf jf out e (?v out)"
  have f: "files (?v out1) = files (?v out2)" by simp
  obtain vs1 vs2 where v: "trace (?v out1) = trace st @ vs1" "trace (?v out2) = trace st @ vs2"
    "list_all2 (differ_by_output_name out1 out2) vs1 vs2"
    by (cases verbose) (simp_all add: differ_by_output_name_def)
  from customize_resume_output_rel [OF f, of "ResumeCustomizer []" rf jf out1 e out2]
  obtain ev1 ev2 where r: "fst (?R out1) = fst (?R out2)"
    "files (snd (?R out1)) = files (snd (?R out2))"
    "trace (snd (?R out1)) = trace (?v out1) @ ev1"
    "trace (snd (?R out2)) = trace (?v out2) @ ev2"
    "list_all2 (differ_by_output_name out1 out2) ev1 ev2"
    by blast
  have t: "customize_try rf jf out verbose e st =
      (case fst (?R out) of
         Inl ex \<Rightarrow> (Inl ex, snd (?R out))
       | Inr u \<Rightarrow>
          (Inr (),
           (case notification e of
              None \<Rightarrow> echo (check_mark @ lit '' Resume customization completed successfully!'')
                        (snd (?R out))
            | Some notify \<Rightarrow>
                emit [Notify (lit ''Resume Customization Complete'')
                        (lit ''Resume has been successfully customized and saved as '' @
                         [39] @ out @ lit ''.pdf'' @ [39])]
                  (echo (check_mark @ lit '' Resume customization completed successfully!'')
                     (snd (?R out))))))" for out
    by (cases "?R out") (auto simp: customize_try_def Let_def split: sum.splits option.splits)
  show ?thesis
  proof (cases "fst (?R out2)")
    case (Inl ex)
    with r v have "fst (customize_try rf jf out1 verbose e st) =
          fst (customize_try rf jf out2 verbose e st) \<and>
       files (snd (customize_try rf jf out1 verbose e st)) =
       files (snd (customize_try rf jf out2 verbose e st)) \<and>
       trace (snd (customize_try rf jf out1 verbose e st)) = trace st @ (vs1 @ ev1) \<and>
       trace (snd (customize_try rf jf out2 verbose e st)) = trace st @ (vs2 @ ev2) \<and>
       list_all2 (differ_by_output_name out1 out2) (vs1 @ ev1) (vs2 @ ev2)"
      by (simp add: t list_all2_appendI)
    then show ?thesis by blast
  next
    case (Inr u)
    show ?thesis
    proof (cases "notification e")
      case None
      let ?m = "[Stdout (check_mark @ lit '' Resume customization completed successfully!'')]"
      have "list_all2 (differ_by_output_name out1 out2) ?m ?m"
        by (simp add: differ_refl)
      with r v Inr None have "fst (customize_try rf jf out1 verbose e st) =
          fst (customize_try rf jf out2 verbose e st) \<and>
       files (snd (customize_try rf jf out1 verbose e st)) =
       files (snd (customize_try rf jf out2 verbose e st)) \<and>
       trace (snd (customize_try rf jf out1 verbose e st)) = trace st @ (vs1 @ ev1 @ ?m) \<and>
       trace (snd (customize_try rf jf out2 verbose e st)) = trace st @ (vs2 @ ev2 @ ?m) \<and>
       list_all2 (differ_by_output_name out1 out2) (vs1 @ ev1 @ ?m) (vs2 @ ev2 @ ?m)"
        by (simp add: t list_all2_appendI)
      then show ?thesis by blast
    next
      case (Some notify)
      let ?m = "\<lambda>out. [Stdout (check_mark @ lit '' Resume customization completed successfully!''),
                Notify (lit ''Resume Customization Complete'')
                        (lit ''Resume has been successfully customized and saved as '' @
                         [39] @ out @ lit ''.pdf'' @ [39])]"
      have "list_all2 (differ_by_output_name out1 out2) (?m out1) (?m out2)"
        by (simp add: differ_by_output_name_def)
      with r v Inr Some have "fst (customize_try rf jf out1 verbose e st) =
          fst (customize_try rf jf out2 verbose e st) \<and>
       files (snd (customize_try rf jf out1 verbose e st)) =
       files (snd (customize_try rf jf out2 verbose e st)) \<and>
       trace (snd (customize_try rf jf out1 verbose e st)) = trace st @ (vs1 @ ev1 @ ?m out1) \<and>
       trace (snd (customize_try rf jf out2 verbose e st)) = trace st @ (vs2 @ ev2 @ ?m out2) \<and>
       list_all2 (differ_by_output_name out1 out2) (vs1 @ ev1 @ ?m out1) (vs2 @ ev2 @ ?m out2)"
        by (simp add: t list_all2_appendI)
      then show ?thesis by blast
    qed
  qed
qed

lemma customize_body_output_rel:
  "fst (customize_body rf jf out1 verbose e st) = fst (customize_body rf jf out2 verbose e st) \<and>
   files (snd (customize_body rf jf out1 verbose e st)) =
   files (snd (customize_body rf jf out2 verbose e st)) \<and>
   list_all2 (differ_by_output_name out1 out2)
     (since st (snd (customize_body rf jf out1 verbose e st)))
     (since st (snd (customize_body rf jf out2 verbose e st)))"
proof -
  let ?T = "\<lambda>out. customize_try rf jf out verbose e st"
  let ?C = "\<lambda>out. customize_body rf jf out verbose e st"
  from customize_try_output_rel [of rf jf out1 verbose e st out2]
  obtain ev1 ev2 where r: "fst (?T out1) = fst (?T out2)"
    "files (snd (?T out1)) = files (snd (?T out2))"
    "trace (snd (?T out1)) = trace st @ ev1" "trace (snd (?T out2)) = trace st @ ev2"
    "list_all2 (differ_by_output_name out1 out2) ev1 ev2"
    by blast
  have "\<exists>m. fst (?C out1) = fst (?C out2) \<and> files (snd (?C out1)) = files (snd (?C out2)) \<and>
     trace (snd (?C out1)) = trace st @ (ev1 @ m) \<and> trace (snd (?C out2)) = trace st @ (ev2 @ m)"
  proof (cases "fst (?T out2)")
    case (Inr u)
    with r have "fst (?C out1) = fst (?C out2) \<and> files (snd (?C out1)) = files (snd (?C out2)) \<and>
     trace (snd (?C out1)) = trace st @ (ev1 @ []) \<and> trace (snd (?C out2)) = trace st @ (ev2 @ [])"
      by (simp add: customize_body_cases)
    then show ?thesis by blast
  next
    case (Inl ex)
    show ?thesis
    proof (cases ex)
      case (ClickException msg)
      with r Inl have "fst (?C out1) = fst (?C out2) \<and> files (snd (?C out1)) = files (snd (?C out2)) \<and>
        trace (snd (?C out1)) = trace st @ (ev1 @ [Stderr (cross_mark @ lit '' Error: '' @ msg)]) \<and>
        trace (snd (?C out2)) = trace st @ (ev2 @ [Stderr (cross_mark @ lit '' Error: '' @ msg)])"
        by (simp add: customize_body_cases)
      then show ?thesis by blast
    next
      case (OtherException msg)
      with r Inl have "fst (?C out1) = fst (?C out2) \<and> files (snd (?C out1)) = files (snd (?C out2)) \<and>
        trace (snd (?C out1)) =
          trace st @ (ev1 @ [Stderr (cross_mark @ lit '' Unexpected error: '' @ msg)]) \<and>
        trace (snd (?C out2)) =
          trace st @ (ev2 @ [Stderr (cross_mark @ lit '' Unexpected error: '' @ msg)])"
        by (simp add: customize_body_cases)
      then show ?thesis by blast
    qed
  qed
  then obtain m where c: "fst (?C out1) = fst (?C out2)"
    "files (snd (?C out1)) = files (snd (?C out2))"
    "trace (snd (?C out1)) = trace st @ (ev1 @ m)" "trace (snd (?C out2)) = trace st @ (ev2 @ m)"
    by blast
  have "list_all2 (differ_by_output_name out1 out2) m m"
    by (simp add: list_all2_same differ_refl)
  with r have "list_all2 (differ_by_output_name out1 out2) (ev1 @ m) (ev2 @ m)"
    by (simp add: list_all2_appendI)
  moreover have "since st (snd (?C out1)) = ev1 @ m" "since st (snd (?C out2)) = ev2 @ m"
    using c by (simp_all only: since_append)
  ultimately show ?thesis using c by simp
qed

lemma customize_output_rel:
  "fst (customize rf jf out1 verbose e st) = fst (customize rf jf out2 verbose e st) \<and>
   files (snd (customize rf jf out1 verbose e st)) =
   files (snd (customize rf jf out2 verbose e st)) \<and>
   list_all2 (differ_by_output_name out1 out2)
     (since st (snd (customize rf jf out1 verbose e st)))
     (since st (snd (customize rf jf out2 verbose e st)))"
proof (cases "check_path e (lit ''RESUME_FILE'') rf = None \<and>
              check_path e (lit ''JOB_POSTING_FILE'') jf = None")
  case True
  then have "customize rf jf out verbose e st = customize_body rf jf out verbose e st" for out
    by (simp add: customize_accepted)
  then show ?thesis by (simp only: customize_body_output_rel)
next
  case False
  with customize_split [of rf jf out1 verbose e st] obtain usage
    where u: "check_path e (lit ''RESUME_FILE'') rf = Some usage \<or>
       (check_path e (lit ''RESUME_FILE'') rf = None \<and>
        check_path e (lit ''JOB_POSTING_FILE'') jf = Some usage)"
    by blast
  then have "customize rf jf out verbose e st = (2, echo_err usage st)" for out
    by (rule customize_rejected)
  then show ?thesis by (simp add: since_def differ_refl)
qed

lemma customize_resume_notification:
  "customize_resume self rf jf out (e\<lparr>notification := x\<rparr>) st =
   customize_resume self rf jf out e st"
  by (simp add: customize_resume_def method_defs Let_def
      cong: option.case_cong sum.case_cong load_result.case_cong run_result.case_cong
        prod.case_cong if_cong)

lemma customize_try_cases:
  "customize_try rf jf out verbose e st =
     (let R = customize_resume (ResumeCustomizer []) rf jf out e
                (if verbose
                 then echo (lit ''Output: '' @ out)
                        (echo (lit ''Job posting: '' @ jf)
                          (echo (lit ''Processing resume: '' @ rf) st))
                 else st)
      in case fst R of
         Inl ex \<Rightarrow> (Inl ex, snd R)
       | Inr u \<Rightarrow>
          (Inr (),
           (case notification e of
              None \<Rightarrow> echo (check_mark @ lit '' Resume customization completed successfully!'')
                        (snd R)
            | Some notify \<Rightarrow>
                emit [Notify (lit ''Resume Customization Complete'')
                        (lit ''Resume has been successfully customized and saved as '' @
                         [39] @ out @ lit ''.pdf'' @ [39])]
                  (echo (check_mark @ lit '' Resume customization completed successfully!'')
                     (snd R)))))"
  by (cases "customize_resume (ResumeCustomizer []) rf jf out e
                (if verbose
                 then echo (lit ''Output: '' @ out)
                        (echo (lit ''Job posting: '' @ jf)
                          (echo (lit ''Processing resume: '' @ rf) st))
                 else st)")
    (auto simp: customize_try_def Let_def split: sum.splits option.splits)

lemma customize_try_notifier_irrelevant:
  "customize_try rf jf out verbose (e\<lparr>notification := Some f\<rparr>) st =
   customize_try rf jf out verbose (e\<lparr>notification := Some g\<rparr>) st"
  by (auto simp: customize_try_cases Let_def customize_resume_notification split: sum.splits)

lemma customize_body_notifier_irrelevant:
  "customize_body rf jf out verbose (e\<lparr>notification := Some f\<rparr>) st =
   customize_body rf jf out verbose (e\<lparr>notification := Some g\<rparr>) st"
  unfolding customize_body_def
  by (simp only: customize_try_notifier_irrelevant [where f = f and g = g])

lemma customize_notifier_irrelevant:
  "customize rf jf out verbose (e\<lparr>notification := Some f\<rparr>) st =
   customize rf jf out verbose (e\<lparr>notification := Some g\<rparr>) st"
  unfolding customize_def
  by (simp only: check_path_notification
      customize_body_notifier_irrelevant [where f = f and g = g])


section \<open>Claims about the command\<close>




text \<open>
  Claim C8. What \<^verbatim>\<open>notification.notify\<close> does is of no consequence for the run: a
  notifier that raises gives the same exit code and the same state as one that returns.
  When every step succeeds and a notification library is installed, the exit code is 0,
  the success message is printed, then the notification is attempted, and the diagnostic
  stream holds the renderer's diagnostics only.
\<close>

theorem notification_failure_swallowed:
  "customize rf jf out verbose (e\<lparr>notification := Some notify\<rparr>) st =
   customize rf jf out verbose (e\<lparr>notification := Some (\<lambda>title message. None)\<rparr>) st \<and>
   (steps_succeed e rf jf \<and> notification e = Some notify \<longrightarrow>
      fst (customize rf jf out verbose e st) = 0 \<and>
      (\<exists>evs temp_file outs err.
         run e (rendercv_cmd temp_file) = Completed 0 outs err \<and>
         stderr_lines evs = [lit ''RenderCV output:'', err] \<and>
         since st (snd (customize rf jf out verbose e st)) =
           evs @
           [Stdout (check_mark @ lit '' Resume customization completed successfully!''),
            Notify (lit ''Resume Customization Complete'')
              (lit ''Resume has been successfully customized and saved as '' @
               [39] @ out @ lit ''.pdf'' @ [39])]))"
proof (rule conjI)
  show "customize rf jf out verbose (e\<lparr>notification := Some notify\<rparr>) st =
   customize rf jf out verbose (e\<lparr>notification := Some (\<lambda>title message. None)\<rparr>) st"
    by (rule customize_notifier_irrelevant)
next
  let ?v = "if verbose
           then echo (lit ''Output: '' @ out)
                  (echo (lit ''Job posting: '' @ jf)
                    (echo (lit ''Processing resume: '' @ rf) st))
           else st"
  let ?R = "customize_resume (ResumeCustomizer []) rf jf out e ?v"
  let ?C = "customize rf jf out verbose e st"
  let ?m = "[Stdout (check_mark @ lit '' Resume customization completed successfully!''),
            Notify (lit ''Resume Customization Complete'')
              (lit ''Resume has been successfully customized and saved as '' @
               [39] @ out @ lit ''.pdf'' @ [39])]"
  have "fst ?C = 0 \<and>
      (\<exists>evs temp_file outs err.
         run e (rendercv_cmd temp_file) = Completed 0 outs err \<and>
         stderr_lines evs = [lit ''RenderCV output:'', err] \<and>
         since st (snd ?C) = evs @ ?m)"
    if s: "steps_succeed e rf jf" and n: "notification e = Some notify"
  proof -
    from s have ok: "fst ?R = Inr ()" by (simp only: customize_resume_ok_iff)
    from customize_resume_success_trace [OF ok] obtain evs temp_file outs err
      where r: "run e (rendercv_cmd temp_file) = Completed 0 outs err"
        and t: "trace (snd ?R) = trace ?v @ evs"
        and q: "stderr_lines evs = [lit ''RenderCV output:'', err]"
      by blast
    obtain vs where v: "trace ?v = trace st @ vs" and vq: "stderr_lines vs = []"
      by (cases verbose) simp_all
    from ok n have c: "?C = (0, emit [Notify (lit ''Resume Customization Complete'')
              (lit ''Resume has been successfully customized and saved as '' @
               [39] @ out @ lit ''.pdf'' @ [39])]
          (echo (check_mark @ lit '' Resume customization completed successfully!'') (snd ?R)))"
      using customize_of_steps [OF s, of out verbose st]
      by (simp add: customize_body_cases customize_try_cases Let_def)
    then have "trace (snd ?C) = trace st @ ((vs @ evs) @ ?m)"
      using t v by simp
    then have "since st (snd ?C) = (vs @ evs) @ ?m" by (rule since_append)
    moreover have "stderr_lines (vs @ evs) = [lit ''RenderCV output:'', err]"
      using q vq by simp
    moreover have "fst ?C = 0" using c by simp
    ultimately show ?thesis using r by blast
  qed
  then show "steps_succeed e rf jf \<and> notification e = Some notify \<longrightarrow>
      fst ?C = 0 \<and>
      (\<exists>evs temp_file outs err.
         run e (rendercv_cmd temp_file) = Completed 0 outs err \<and>
         stderr_lines evs = [lit ''RenderCV output:'', err] \<and>
         since st (snd ?C) = evs @ ?m)"
    by blast
qed

text \<open>The claim in the sample world with a notifier that always raises.\<close>

theorem notification_failure_swallowed_witness:
  "steps_succeed failing_notifier_env (lit ''resume.yaml'') (lit ''job.txt'') \<and>
   notification failing_notifier_env =
     Some (\<lambda>title message. Some (lit ''No usable implementation found!'')) \<and>
   fst (customize (lit ''resume.yaml'') (lit ''job.txt'') (lit ''tempresume'') False
          failing_notifier_env st0) = 0 \<and>
   customize (lit ''resume.yaml'') (lit ''job.txt'') (lit ''tempresume'') False
     failing_notifier_env st0 =
   customize (lit ''resume.yaml'') (lit ''job.txt'') (lit ''tempresume'') False
     (sample_env\<lparr>notification := Some (\<lambda>title message. None)\<rparr>) st0"
proof -
  have s: "steps_succeed failing_notifier_env (lit ''resume.yaml'') (lit ''job.txt'')"
    by (simp add: steps_succeed_def failing_notifier_env_def sample_env_fields sample_answer_clean)
  have n: "notification failing_notifier_env =
     Some (\<lambda>title message. Some (lit ''No usable implementation found!''))"
    by (simp add: failing_notifier_env_def)
  have i: "failing_notifier_env\<lparr>notification :=
       Some (\<lambda>title message. Some (lit ''No usable implementation found!''))\<rparr> =
       failing_notifier_env"
    by (simp add: failing_notifier_env_def)
  have u: "failing_notifier_env\<lparr>notification := Some (\<lambda>title message. None)\<rparr> =
       sample_env\<lparr>notification := Some (\<lambda>title message. None)\<rparr>"
    by (simp add: failing_notifier_env_def)
  note t = notification_failure_swallowed [where rf = "lit ''resume.yaml''"
      and jf = "lit ''job.txt''" and out = "lit ''tempresume''" and verbose = False
      and e = failing_notifier_env
      and notify = "\<lambda>title message. Some (lit ''No usable implementation found!'')"
      and st = st0]
  from t s n have z: "fst (customize (lit ''resume.yaml'') (lit ''job.txt'') (lit ''tempresume'')
      False failing_notifier_env st0) = 0"
    by blast
  from t have "customize (lit ''resume.yaml'') (lit ''job.txt'') (lit ''tempresume'') False
      (failing_notifier_env\<lparr>notification :=
         Some (\<lambda>title message. Some (lit ''No usable implementation found!''))\<rparr>) st0 =
    customize (lit ''resume.yaml'') (lit ''job.txt'') (lit ''tempresume'') False
      (failing_notifier_env\<lparr>notification := Some (\<lambda>title message. None)\<rparr>) st0"
    by (rule conjunct1)
  then have "customize (lit ''resume.yaml'') (lit ''job.txt'') (lit ''tempresume'') False
      failing_notifier_env st0 =
    customize (lit ''resume.yaml'') (lit ''job.txt'') (lit ''tempresume'') False
      (sample_env\<lparr>notification := Some (\<lambda>title message. None)\<rparr>) st0"
    unfolding i u .
  with s n z show ?thesis by blast
qed

text \<open>
  Claim C10, as stated, fails in its last part: in verbose mode the command prints the
  output name in an \<^verbatim>\<open>Output:\<close> line before the pipeline starts. Two verbose runs
  without a credential print no success message and send no notification, and still
  differ in what they print.
\<close>

theorem verbose_line_shows_output_name:
  "stdout_lines (since st0 (snd (customize (lit ''resume.yaml'') (lit ''job.txt'') (lit ''a'') True
      (sample_env\<lparr>getenv := \<lambda>name. None\<rparr>) st0))) =
     [lit ''Processing resume: '' @ lit ''resume.yaml'', lit ''Job posting: '' @ lit ''job.txt'',
      lit ''Output: '' @ lit ''a''] \<and>
   stdout_lines (since st0 (snd (customize (lit ''resume.yaml'') (lit ''job.txt'') (lit ''b'') True
      (sample_env\<lparr>getenv := \<lambda>name. None\<rparr>) st0))) =
     [lit ''Processing resume: '' @ lit ''resume.yaml'', lit ''Job posting: '' @ lit ''job.txt'',
      lit ''Output: '' @ lit ''b''] \<and>
   lit ''Output: '' @ lit ''a'' \<noteq> lit ''Output: '' @ lit ''b''"
  using sample_customize_accepted(1) [of "sample_env\<lparr>getenv := \<lambda>name. None\<rparr>" _ True st0]
  by (simp add: customize_body_cases customize_try_cases customize_resume_no_key Let_def
      stdout_lines_def since_def st0_def)

text \<open>
  Claim C10, amended. Two runs that differ in the output name only have the same exit
  code, leave the same files, start the same subprocesses, send the same requests, stage
  the same files and print the same diagnostic stream; their traces agree event by event
  except for the messages that quote the output name: the \<^verbatim>\<open>Output:\<close> line of the
  verbose mode, the success line of the renderer step and the notification. The command
  \<^verbatim>\<open>render_resume\<close> runs names the staging file only.
\<close>

theorem output_name_only_in_messages:
  "fst (customize rf jf out1 verbose e st) = fst (customize rf jf out2 verbose e st) \<and>
   files (snd (customize rf jf out1 verbose e st)) =
   files (snd (customize rf jf out2 verbose e st)) \<and>
   subprocesses (since st (snd (customize rf jf out1 verbose e st))) =
   subprocesses (since st (snd (customize rf jf out2 verbose e st))) \<and>
   requests (since st (snd (customize rf jf out1 verbose e st))) =
   requests (since st (snd (customize rf jf out2 verbose e st))) \<and>
   file_writes (since st (snd (customize rf jf out1 verbose e st))) =
   file_writes (since st (snd (customize rf jf out2 verbose e st))) \<and>
   stderr_lines (since st (snd (customize rf jf out1 verbose e st))) =
   stderr_lines (since st (snd (customize rf jf out2 verbose e st))) \<and>
   list_all2 (differ_by_output_name out1 out2)
     (since st (snd (customize rf jf out1 verbose e st)))
     (since st (snd (customize rf jf out2 verbose e st))) \<and>
   subprocesses (since st (snd (render_resume self temp_file out1 e st))) =
     [rendercv_cmd temp_file]"
proof -
  note r = customize_output_rel [of rf jf out1 verbose e st out2]
  then have "list_all2 (differ_by_output_name out1 out2)
     (since st (snd (customize rf jf out1 verbose e st)))
     (since st (snd (customize rf jf out2 verbose e st)))" by simp
  note p = differ_projections [OF this]
  have "\<exists>evs. trace (snd (render_resume self temp_file out1 e st)) = trace st @ evs \<and>
      subprocesses evs = [rendercv_cmd temp_file]"
    by (auto simp: render_resume_def Let_def subprocesses_def
        split: run_result.splits prod.splits)
  then have "subprocesses (since st (snd (render_resume self temp_file out1 e st))) =
     [rendercv_cmd temp_file]"
    by auto
  with r p show ?thesis by simp
qed

text \<open>
  Claim C3. When the credential variable is unset, \<^verbatim>\<open>customize_resume\<close> raises a
  \<^verbatim>\<open>ClickException\<close> at once: the state is unchanged, so nothing was read and no
  request was sent. The message tells how to set the credential. Every run of the command
  with the variable unset sends no request and ends with an exit code other than 0; when
  \<^verbatim>\<open>click\<close> accepts the two paths, the exit code is 1 and that message, after the cross
  mark and \<^verbatim>\<open>Error:\<close>, is the one line on the diagnostic stream.
\<close>

theorem missing_credential_halts_first:
  assumes "getenv e (lit ''OPENROUTER_API_KEY'') = None"
  shows "customize_resume self rf jf out e st = (Inl (ClickException missing_key_message), st) \<and>
         since st (snd (customize_resume self rf jf out e st)) = [] \<and>
         sublist (lit ''Please set OPENROUTER_API_KEY in your .env file'') missing_key_message \<and>
         fst (customize rf jf out verbose e st) \<noteq> 0 \<and>
         requests (since st (snd (customize rf jf out verbose e st))) = [] \<and>
         (check_path e (lit ''RESUME_FILE'') rf = None \<and>
          check_path e (lit ''JOB_POSTING_FILE'') jf = None \<longrightarrow>
            fst (customize rf jf out verbose e st) = 1 \<and>
            stderr_lines (since st (snd (customize rf jf out verbose e st))) =
              [cross_mark @ lit '' Error: '' @ missing_key_message])"
proof -
  let ?C = "customize rf jf out verbose e st"
  let ?B = "customize_body rf jf out verbose e st"
  have b: "fst ?B = 1 \<and> requests (since st (snd ?B)) = [] \<and>
      stderr_lines (since st (snd ?B)) = [cross_mark @ lit '' Error: '' @ missing_key_message]"
    using assms
    by (simp add: customize_resume_no_key customize_body_def customize_try_def
        Let_def requests_def)
  have "fst ?C \<noteq> 0 \<and> requests (since st (snd ?C)) = []"
    using customize_split [of rf jf out verbose e st] b
    by (auto simp: requests_def)
  moreover have "fst ?C = 1 \<and>
      stderr_lines (since st (snd ?C)) = [cross_mark @ lit '' Error: '' @ missing_key_message]"
    if "check_path e (lit ''RESUME_FILE'') rf = None \<and>
        check_path e (lit ''JOB_POSTING_FILE'') jf = None"
    using that b by (simp add: customize_accepted)
  ultimately show ?thesis
    using assms by (simp add: customize_resume_no_key guidance_in_message)
qed

text \<open>The claim in the sample world with the variable unset: at the two files of the
  scenario, and at a resume path that does not exist.\<close>

theorem missing_credential_halts_first_witness:
  "getenv (sample_env\<lparr>getenv := \<lambda>name. None\<rparr>) (lit ''OPENROUTER_API_KEY'') = None \<and>
   check_path (sample_env\<lparr>getenv := \<lambda>name. None\<rparr>) (lit ''RESUME_FILE'') (lit ''resume.yaml'') =
     None \<and>
   check_path (sample_env\<lparr>getenv := \<lambda>name. None\<rparr>) (lit ''JOB_POSTING_FILE'') (lit ''job.txt'') =
     None \<and>
   customize_resume (ResumeCustomizer []) (lit ''resume.yaml'') (lit ''job.txt'') (lit ''tempresume'')
     (sample_env\<lparr>getenv := \<lambda>name. None\<rparr>) st0 =
     (Inl (ClickException missing_key_message), st0) \<and>
   fst (customize (lit ''resume.yaml'') (lit ''job.txt'') (lit ''tempresume'') False
     (sample_env\<lparr>getenv := \<lambda>name. None\<rparr>) st0) = 1 \<and>
   requests (since st0 (snd (customize (lit ''resume.yaml'') (lit ''job.txt'') (lit ''tempresume'') False
     (sample_env\<lparr>getenv := \<lambda>name. None\<rparr>) st0))) = [] \<and>
   fst (customize (lit ''nope.yaml'') (lit ''job.txt'') (lit ''tempresume'') False
     (sample_env\<lparr>getenv := \<lambda>name. None\<rparr>) st0) \<noteq> 0 \<and>
   requests (since st0 (snd (customize (lit ''nope.yaml'') (lit ''job.txt'') (lit ''tempresume'') False
     (sample_env\<lparr>getenv := \<lambda>name. None\<rparr>) st0))) = []"
proof -
  have g: "getenv (sample_env\<lparr>getenv := \<lambda>name. None\<rparr>) (lit ''OPENROUTER_API_KEY'') = None"
    by simp
  have c: "check_path (sample_env\<lparr>getenv := \<lambda>name. None\<rparr>) (lit ''RESUME_FILE'')
        (lit ''resume.yaml'') = None"
    "check_path (sample_env\<lparr>getenv := \<lambda>name. None\<rparr>) (lit ''JOB_POSTING_FILE'')
        (lit ''job.txt'') = None"
    by (simp_all add: check_path_def sample_env_fields)
  from missing_credential_halts_first [OF g, of "ResumeCustomizer []" "lit ''resume.yaml''"
      "lit ''job.txt''" "lit ''tempresume''" st0 False]
    missing_credential_halts_first [OF g, of "ResumeCustomizer []" "lit ''nope.yaml''"
      "lit ''job.txt''" "lit ''tempresume''" st0 False]
    g c
  show ?thesis by blast
qed

end
